theory Spec2Isabelle
  imports Main
begin

section \<open>Strings\<close>

text \<open>
  JavaScript strings are modelled as \<open>string\<close>. The code only searches them for ASCII
  patterns, so the encoding of other characters plays no role.
\<close>

text \<open>\<open>s.includes(sub)\<close> (\<open>includes\<close> is a keyword of Isabelle): \<open>sub\<close> occurs in \<open>s\<close> as a contiguous substring.\<close>

fun str_includes :: "string \<Rightarrow> string \<Rightarrow> bool" where
  "str_includes [] sub = (sub = [])"
| "str_includes (c # cs) sub = (take (length sub) (c # cs) = sub \<or> str_includes cs sub)"

text \<open>The character class \<open>\d\<close> of a regular expression without the unicode flag.\<close>

definition isDigit :: "char \<Rightarrow> bool" where
  "isDigit c = (c \<in> set ''0123456789'')"

text \<open>
  \<open>s.match(/Version: (\d+)/)?.[1]\<close>: the leftmost position where \<open>Version: \<close> is followed by
  a digit, and the maximal run of digits there (\<open>+\<close> is greedy). \<open>None\<close> is \<open>undefined\<close>.
\<close>

fun match_Version :: "string \<Rightarrow> string option" where
  "match_Version [] = None"
| "match_Version (c # cs) =
     (let ds = takeWhile isDigit (drop 9 (c # cs)) in
      if take 9 (c # cs) = ''Version: '' \<and> ds \<noteq> [] then Some ds else match_Version cs)"

text \<open>
  The numbers that \<open>parseInt\<close> gives on a run of decimal digits are doubles: an integer
  that a double represents, or \<open>Infinity\<close>.
\<close>

datatype js_number = Finite nat | Infinity

text \<open>The comparison \<open><\<close> of JavaScript on these numbers.\<close>

fun jsLess :: "js_number \<Rightarrow> js_number \<Rightarrow> bool" where
  "jsLess (Finite a) (Finite b) = (a < b)"
| "jsLess (Finite a) Infinity = True"
| "jsLess Infinity y = False"

text \<open>The number of binary digits of a natural number.\<close>

fun bitLength :: "nat \<Rightarrow> nat" where
  "bitLength n = (if n = 0 then 0 else Suc (bitLength (n div 2)))"

declare bitLength.simps [simp del]

text \<open>
  The Number value of a natural number: the number itself when it has at most 53 binary
  digits; otherwise the nearest multiple of \<open>2 ^ e\<close> that keeps 53 digits, the even one
  of two that are equally near; \<open>Infinity\<close> from \<open>2 ^ 1024\<close> on.
\<close>

definition toNumber :: "nat \<Rightarrow> js_number" where
  "toNumber n =
     (if bitLength n \<le> 53 then Finite n
      else
        (let e = bitLength n - 53;
             q = n div 2 ^ e;
             r = n mod 2 ^ e;
             half = 2 ^ (e - 1);
             q' = (if half < r \<or> (r = half \<and> odd q) then q + 1 else q);
             m = q' * 2 ^ e
         in if m < 2 ^ 1024 then Finite m else Infinity))"

text \<open>The integer that a run of decimal digits denotes.\<close>

definition natOfDigits :: "string \<Rightarrow> nat" where
  "natOfDigits ds = foldl (\<lambda>acc c. 10 * acc + (of_char c - 48)) 0 ds"

text \<open>
  \<open>parseInt\<close> on a run of decimal digits, the only argument the code gives it: the
  Number value of the integer the digits denote, as Node.js computes it. (The language
  lets an implementation ignore the digits after the twentieth; Node.js does not.)
\<close>

definition parseInt :: "string \<Rightarrow> js_number" where
  "parseInt ds = toNumber (natOfDigits ds)"

section \<open>The file system seen by the hook installer\<close>

text \<open>
  A path holds a regular file with its content, or a directory. \<open>calls\<close> records the
  mutating calls that took effect, in order. \<open>chmodFails\<close> says for which paths
  \<open>chmodSync\<close> raises.
\<close>

datatype node = File string | Directory

datatype fs_call =
    RenameSync string string
  | UnlinkSync string
  | WriteFileSync string string
  | ChmodSync string string

datatype errno = ENOENT | EISDIR | ENOTDIR | EPERM

record fs =
  nodes :: "string \<rightharpoonup> node"
  calls :: "fs_call list"
  chmodFails :: "string \<Rightarrow> bool"

definition existsSync :: "fs \<Rightarrow> string \<Rightarrow> bool" where
  "existsSync s p = (nodes s p \<noteq> None)"

definition readFileSync :: "fs \<Rightarrow> string \<Rightarrow> errno + string" where
  "readFileSync s p =
     (case nodes s p of
        None \<Rightarrow> Inl ENOENT
      | Some Directory \<Rightarrow> Inl EISDIR
      | Some (File c) \<Rightarrow> Inr c)"

definition renameSync :: "fs \<Rightarrow> string \<Rightarrow> string \<Rightarrow> errno + fs" where
  "renameSync s p q =
     (case nodes s p of
        None \<Rightarrow> Inl ENOENT
      | Some Directory \<Rightarrow>
          (case nodes s q of
             Some (File _) \<Rightarrow> Inl ENOTDIR
           | _ \<Rightarrow> Inr (s\<lparr>nodes := ((nodes s)(p := None))(q \<mapsto> Directory),
                        calls := calls s @ [RenameSync p q]\<rparr>))
      | Some (File c) \<Rightarrow>
          (case nodes s q of
             Some Directory \<Rightarrow> Inl EISDIR
           | _ \<Rightarrow> Inr (s\<lparr>nodes := ((nodes s)(p := None))(q \<mapsto> File c),
                        calls := calls s @ [RenameSync p q]\<rparr>)))"

definition unlinkSync :: "fs \<Rightarrow> string \<Rightarrow> errno + fs" where
  "unlinkSync s p =
     (case nodes s p of
        None \<Rightarrow> Inl ENOENT
      | Some Directory \<Rightarrow> Inl EPERM
      | Some (File _) \<Rightarrow> Inr (s\<lparr>nodes := (nodes s)(p := None), calls := calls s @ [UnlinkSync p]\<rparr>))"

definition writeFileSync :: "fs \<Rightarrow> string \<Rightarrow> string \<Rightarrow> errno + fs" where
  "writeFileSync s p c =
     (case nodes s p of
        Some Directory \<Rightarrow> Inl EISDIR
      | _ \<Rightarrow> Inr (s\<lparr>nodes := (nodes s)(p \<mapsto> File c), calls := calls s @ [WriteFileSync p c]\<rparr>))"

definition chmodSync :: "fs \<Rightarrow> string \<Rightarrow> string \<Rightarrow> errno + fs" where
  "chmodSync s p m =
     (if nodes s p = None then Inl ENOENT
      else if chmodFails s p then Inl EPERM
      else Inr (s\<lparr>calls := calls s @ [ChmodSync p m]\<rparr>))"

section \<open>hooks.ts\<close>

text \<open>
  \<open>path.join\<close> is a parameter \<open>join\<close> of every function that calls it, and
  \<open>process.platform\<close> a parameter \<open>platform\<close>.
\<close>

definition productMarker :: string where
  "productMarker = ''HumanLayer thoughts''"

definition hookNeedsVersionUpdate :: "fs \<Rightarrow> string \<Rightarrow> string \<Rightarrow> errno + bool" where
  "hookNeedsVersionUpdate s hookPath newContent =
     (if \<not> existsSync s hookPath then Inr True
      else
        (case readFileSync s hookPath of
           Inl e \<Rightarrow> Inl e
         | Inr existing \<Rightarrow>
             (case match_Version existing of
                None \<Rightarrow> Inr True
              | Some existingVersion \<Rightarrow>
                  (case match_Version newContent of
                     None \<Rightarrow> Inr True
                   | Some newVersion \<Rightarrow> Inr (jsLess (parseInt existingVersion) (parseInt newVersion))))))"

text \<open>The value of \<open>needsUpdate\<close> in \<open>installGitHook\<close>, with the short circuit of \<open>||\<close>.\<close>

definition needsUpdate :: "fs \<Rightarrow> string \<Rightarrow> string \<Rightarrow> errno + bool" where
  "needsUpdate s hookPath content =
     (if \<not> existsSync s hookPath then Inr True
      else
        (case readFileSync s hookPath of
           Inl e \<Rightarrow> Inl e
         | Inr existing \<Rightarrow>
             if \<not> str_includes existing productMarker then Inr True
             else hookNeedsVersionUpdate s hookPath content))"

record hook_result =
  updated :: bool

text \<open>The backup or removal of an existing hook (the block under \<open>if (fs.existsSync(hookPath))\<close>).\<close>

definition backupExisting :: "fs \<Rightarrow> string \<Rightarrow> string \<Rightarrow> errno + fs" where
  "backupExisting s hookPath oldHookPath =
     (if existsSync s hookPath then
        (case readFileSync s hookPath of
           Inl e \<Rightarrow> Inl e
         | Inr existing \<Rightarrow>
             if \<not> str_includes existing productMarker then renameSync s hookPath oldHookPath
             else unlinkSync s hookPath)
      else Inr s)"

text \<open>\<open>chmodSync\<close> inside \<open>try\<close> with an empty \<open>catch\<close>, on every platform but \<open>win32\<close>.\<close>

definition makeExecutable :: "string \<Rightarrow> fs \<Rightarrow> string \<Rightarrow> fs" where
  "makeExecutable platform s hookPath =
     (if platform \<noteq> ''win32'' then
        (case chmodSync s hookPath ''755'' of Inl _ \<Rightarrow> s | Inr s' \<Rightarrow> s')
      else s)"

definition installGitHook ::
  "string \<Rightarrow> (string \<Rightarrow> string \<Rightarrow> string) \<Rightarrow> string \<Rightarrow> string \<Rightarrow> string \<Rightarrow> fs
     \<Rightarrow> errno + (hook_result \<times> fs)" where
  "installGitHook platform join hooksDir hookName content s =
     (let hookPath = join hooksDir hookName;
          oldHookPath = hookPath @ ''.old''
      in case needsUpdate s hookPath content of
           Inl e \<Rightarrow> Inl e
         | Inr False \<Rightarrow> Inr (\<lparr>updated = False\<rparr>, s)
         | Inr True \<Rightarrow>
             (case backupExisting s hookPath oldHookPath of
                Inl e \<Rightarrow> Inl e
              | Inr s1 \<Rightarrow>
                  (case writeFileSync s1 hookPath content of
                     Inl e \<Rightarrow> Inl e
                   | Inr s2 \<Rightarrow> Inr (\<lparr>updated = True\<rparr>, makeExecutable platform s2 hookPath))))"


section \<open>Values that JavaScript code can throw\<close>

text \<open>
  The values that \<open>fs.symlinkSync\<close> is taken to throw: an \<open>Error\<close> object with its
  \<open>message\<close>, a string, or another primitive value. A number is given by the string that
  its conversion to a string yields (\<open>42\<close>, \<open>1e+21\<close>, \<open>NaN\<close>).
\<close>

datatype js_value =
    JError string
  | JString string
  | JNumber string
  | JBoolean bool
  | JNull
  | JUndefined

text \<open>
  \<open>String(v)\<close>. For an \<open>Error\<close> whose name is \<open>Error\<close> it is \<open>Error: \<close> and the message
  (\<open>Error\<close> alone when the message is empty).
\<close>

fun String :: "js_value \<Rightarrow> string" where
  "String (JError m) = (if m = [] then ''Error'' else ''Error: '' @ m)"
| "String (JString s) = s"
| "String (JNumber rendering) = rendering"
| "String (JBoolean b) = (if b then ''true'' else ''false'')"
| "String JNull = ''null''"
| "String JUndefined = ''undefined''"

text \<open>A template literal prints an absent (\<open>undefined\<close>) string as \<open>undefined\<close>.\<close>

fun template :: "string option \<Rightarrow> string" where
  "template None = ''undefined''"
| "template (Some s) = s"

section \<open>symlink.ts: createDirectoryLink\<close>

text \<open>
  The environment of \<open>fs.symlinkSync\<close>: the links that exist (path to target and kind), the
  calls made so far with their arguments, and \<open>symlinkFailure\<close>, which says for which
  arguments the call throws and what. A call on a path that holds a link already throws
  \<open>EEXIST\<close> with the message Node.js gives it.
\<close>

record link_env =
  links :: "string \<rightharpoonup> string \<times> string"
  symlinkCalls :: "(string \<times> string \<times> string) list"
  symlinkFailure :: "string \<Rightarrow> string \<Rightarrow> string \<Rightarrow> js_value option"

definition eexist :: "string \<Rightarrow> string \<Rightarrow> js_value" where
  "eexist target path =
     JError (''EEXIST: file already exists, symlink '' @ [CHR 0x27] @ target @ [CHR 0x27]
             @ '' -> '' @ [CHR 0x27] @ path @ [CHR 0x27])"

text \<open>The result is the thrown value, if any, and the environment after the call.\<close>

definition symlinkSync ::
  "link_env \<Rightarrow> string \<Rightarrow> string \<Rightarrow> string \<Rightarrow> js_value option \<times> link_env" where
  "symlinkSync env target path kind =
     (let env1 = env\<lparr>symlinkCalls := symlinkCalls env @ [(target, path, kind)]\<rparr> in
      case symlinkFailure env target path kind of
        Some e \<Rightarrow> (Some e, env1)
      | None \<Rightarrow>
          if links env path \<noteq> None then (Some (eexist target path), env1)
          else (None, env1\<lparr>links := (links env)(path \<mapsto> (target, kind))\<rparr>))"

datatype LinkType = symlink | junction

record LinkResult =
  success :: bool
  type :: LinkType
  message :: "string option"

text \<open>\<open>error instanceof Error ? error.message : String(error)\<close>.\<close>

definition errorMessage :: "js_value \<Rightarrow> string" where
  "errorMessage error = (case error of JError m \<Rightarrow> m | _ \<Rightarrow> String error)"

text \<open>The \<open>catch\<close> block of \<open>createDirectoryLink\<close>.\<close>

definition linkFailed :: "bool \<Rightarrow> js_value \<Rightarrow> LinkResult" where
  "linkFailed isWin error =
     (if isWin \<and> str_includes (errorMessage error) ''EPERM'' then
        \<lparr>success = False, type = junction,
         message = Some ''Permission denied. Try running as administrator or check if the target directory exists.''\<rparr>
      else
        \<lparr>success = False, type = (if isWin then junction else symlink),
         message = Some (errorMessage error)\<rparr>)"

text \<open>The function is \<open>async\<close> and awaits nothing: the result is the value of its promise.\<close>

definition createDirectoryLink ::
  "string \<Rightarrow> string \<Rightarrow> string \<Rightarrow> link_env \<Rightarrow> LinkResult \<times> link_env" where
  "createDirectoryLink platform target linkPath env =
     (let isWin = (platform = ''win32'') in
      if isWin then
        (case symlinkSync env target linkPath ''junction'' of
           (None, env') \<Rightarrow> (\<lparr>success = True, type = junction, message = None\<rparr>, env')
         | (Some error, env') \<Rightarrow> (linkFailed isWin error, env'))
      else
        (case symlinkSync env target linkPath ''dir'' of
           (None, env') \<Rightarrow> (\<lparr>success = True, type = symlink, message = None\<rparr>, env')
         | (Some error, env') \<Rightarrow> (linkFailed isWin error, env')))"


section \<open>symlink.ts: createDirectoryLink on any thrown value\<close>

text \<open>
  JavaScript code can throw any value. The \<open>catch\<close> block of \<open>createDirectoryLink\<close> does four
  things with the value it catches: it tests \<open>instanceof Error\<close>, reads \<open>.message\<close>, applies
  \<open>String\<close>, and on \<open>win32\<close> calls \<open>.includes('EPERM')\<close> on the text it got. The last three
  can themselves throw: a \<open>TypeError\<close> of the language, or a value that a getter or a method
  of the thrown object throws. A thrown value is given here by what these operations do
  with it.
\<close>

text \<open>
  What is thrown on: a \<open>TypeError\<close> of the language, or a thrown value again. The value
  of a \<open>message\<close> property: a string; or any other value, given by what the call
  \<open>.includes('EPERM')\<close> does on it: it throws (a \<open>TypeError\<close> on a number, on \<open>null\<close> or on
  \<open>undefined\<close>), or it returns a truthy or a falsy value. A thrown value: an \<open>Error\<close>,
  given by what reading \<open>.message\<close> does (it throws, or it gives the value of the
  property); or a value that is not an \<open>Error\<close>, given by what \<open>String\<close> does with it (it
  throws, as on an object without a usable \<open>toString\<close>, or it gives a string).
\<close>

datatype raised = TypeError | Threw thrown_value
  and message_value = MString string | MOther "raised + bool"
  and thrown_value = AnError "raised + message_value" | NotAnError "raised + string"

text \<open>The result object: its \<open>message\<close> holds whatever \<open>errorMessage\<close> was.\<close>

record any_result =
  anySuccess :: bool
  anyType :: LinkType
  anyMessage :: "message_value option"

text \<open>\<open>error instanceof Error ? error.message : String(error)\<close>, which may throw.\<close>

definition errorMessageAny :: "thrown_value \<Rightarrow> raised + message_value" where
  "errorMessageAny error =
     (case error of
        AnError read \<Rightarrow> read
      | NotAnError conversion \<Rightarrow>
          (case conversion of Inl e \<Rightarrow> Inl e | Inr s \<Rightarrow> Inr (MString s)))"

text \<open>\<open>errorMessage.includes('EPERM')\<close>, which may throw; \<open>msg\<close> is the value of \<open>errorMessage\<close>.\<close>

definition includesEPERM :: "message_value \<Rightarrow> raised + bool" where
  "includesEPERM msg =
     (case msg of
        MString s \<Rightarrow> Inr (str_includes s ''EPERM'')
      | MOther outcome \<Rightarrow> outcome)"

text \<open>
  The \<open>catch\<close> block: \<open>Inl\<close> is the value it throws itself. \<open>isWin && ...\<close> calls \<open>includes\<close>
  on \<open>win32\<close> only.
\<close>

definition linkFailedAny :: "bool \<Rightarrow> thrown_value \<Rightarrow> raised + any_result" where
  "linkFailedAny isWin error =
     (case errorMessageAny error of
        Inl e \<Rightarrow> Inl e
      | Inr msg \<Rightarrow>
          (case (if isWin then includesEPERM msg else Inr False) of
             Inl e \<Rightarrow> Inl e
           | Inr True \<Rightarrow>
               Inr \<lparr>anySuccess = False, anyType = junction,
                    anyMessage = Some (MString ''Permission denied. Try running as administrator or check if the target directory exists.'')\<rparr>
           | Inr False \<Rightarrow>
               Inr \<lparr>anySuccess = False, anyType = (if isWin then junction else symlink),
                    anyMessage = Some msg\<rparr>))"

text \<open>
  \<open>createDirectoryLink\<close>, with \<open>symlinkSync\<close> given by the value it throws for its
  arguments (\<open>None\<close>: it returns). \<open>Inl\<close> is the value with which the promise of the
  function is rejected.
\<close>

definition createDirectoryLinkAny ::
  "string \<Rightarrow> (string \<Rightarrow> string \<Rightarrow> string \<Rightarrow> thrown_value option) \<Rightarrow> string \<Rightarrow> string
     \<Rightarrow> raised + any_result" where
  "createDirectoryLinkAny platform symlinkSyncThrows target linkPath =
     (let isWin = (platform = ''win32'') in
      if isWin then
        (case symlinkSyncThrows target linkPath ''junction'' of
           None \<Rightarrow> Inr \<lparr>anySuccess = True, anyType = junction, anyMessage = None\<rparr>
         | Some error \<Rightarrow> linkFailedAny isWin error)
      else
        (case symlinkSyncThrows target linkPath ''dir'' of
           None \<Rightarrow> Inr \<lparr>anySuccess = True, anyType = symlink, anyMessage = None\<rparr>
         | Some error \<Rightarrow> linkFailedAny isWin error))"

text \<open>
  The values of \<open>js_value\<close> among the thrown values, and the results of
  \<open>createDirectoryLink\<close> among the result objects.
\<close>

definition asThrown :: "js_value \<Rightarrow> thrown_value" where
  "asThrown v =
     (case v of JError m \<Rightarrow> AnError (Inr (MString m)) | _ \<Rightarrow> NotAnError (Inr (String v)))"

definition asAnyResult :: "LinkResult \<Rightarrow> any_result" where
  "asAnyResult r =
     \<lparr>anySuccess = success r, anyType = type r, anyMessage = map_option MString (message r)\<rparr>"


section \<open>checkExistingSetup\<close>

text \<open>
  What \<open>fs.existsSync\<close> and \<open>fs.lstatSync\<close> see at a path: a regular file, a directory, or a
  link (a symbolic link or a junction) whose target resolves or dangles. \<open>existsSync\<close>
  follows links, \<open>lstatSync\<close> does not.
\<close>

datatype lnode = Regular | Dir | Link bool

type_synonym tree = "string \<rightharpoonup> lnode"

definition existsSync' :: "tree \<Rightarrow> string \<Rightarrow> bool" where
  "existsSync' t p =
     (case t p of None \<Rightarrow> False | Some (Link resolves) \<Rightarrow> resolves | Some _ \<Rightarrow> True)"

definition lstatSync :: "tree \<Rightarrow> string \<Rightarrow> errno + lnode" where
  "lstatSync t p = (case t p of None \<Rightarrow> Inl ENOENT | Some n \<Rightarrow> Inr n)"

fun isDirectory :: "lnode \<Rightarrow> bool" where
  "isDirectory Dir = True"
| "isDirectory n = False"

fun isSymbolicLink :: "lnode \<Rightarrow> bool" where
  "isSymbolicLink (Link r) = True"
| "isSymbolicLink n = False"

text \<open>The fields of \<open>ThoughtsConfig\<close> that the code under study reads.\<close>

record ThoughtsConfig =
  thoughtsRepo :: string
  reposDir :: string
  globalDir :: string
  user :: string

record SetupStatus =
  exists :: bool
  isValid :: bool
  isOldStructure :: "bool option"
  message' :: "string option"

text \<open>\<open>fs.existsSync(p) && fs.lstatSync(p).isSymbolicLink()\<close>, with the short circuit of \<open>&&\<close>.\<close>

definition existsAsLink :: "tree \<Rightarrow> string \<Rightarrow> errno + bool" where
  "existsAsLink t p =
     (if existsSync' t p then
        (case lstatSync t p of Inl e \<Rightarrow> Inl e | Inr st \<Rightarrow> Inr (isSymbolicLink st))
      else Inr False)"

text \<open>\<open>cwd\<close> is \<open>process.cwd()\<close>; an absent \<open>config\<close> (\<open>null\<close> or \<open>undefined\<close>) is \<open>None\<close>.\<close>

definition checkExistingSetup ::
  "string \<Rightarrow> (string \<Rightarrow> string \<Rightarrow> string) \<Rightarrow> tree \<Rightarrow> ThoughtsConfig option
     \<Rightarrow> errno + SetupStatus" where
  "checkExistingSetup cwd join t config =
     (let thoughtsDir = join cwd ''thoughts'' in
      if \<not> existsSync' t thoughtsDir then
        Inr \<lparr>exists = False, isValid = False, isOldStructure = None, message' = None\<rparr>
      else
        (case lstatSync t thoughtsDir of
           Inl e \<Rightarrow> Inl e
         | Inr st \<Rightarrow>
             if \<not> isDirectory st then
               Inr \<lparr>exists = True, isValid = False, isOldStructure = None,
                    message' = Some ''thoughts exists but is not a directory''\<rparr>
             else
               (let localPath = join thoughtsDir ''local'' in
                case existsAsLink t localPath of
                  Inl e \<Rightarrow> Inl e
                | Inr hasOldLocal \<Rightarrow>
                    if hasOldLocal then
                      Inr \<lparr>exists = True, isValid = False, isOldStructure = Some True,
                           message' = Some ''thoughts directory uses old structure (needs upgrade)''\<rparr>
                    else
                      (case config of
                         None \<Rightarrow>
                           Inr \<lparr>exists = True, isValid = False, isOldStructure = None,
                                message' = Some ''thoughts directory exists but configuration is missing''\<rparr>
                       | Some cfg \<Rightarrow>
                           (let userPath = join thoughtsDir (user cfg);
                                sharedPath = join thoughtsDir ''shared'';
                                globalPath = join thoughtsDir ''global''
                            in case existsAsLink t userPath of
                                 Inl e \<Rightarrow> Inl e
                               | Inr hasUser \<Rightarrow>
                                   (case existsAsLink t sharedPath of
                                      Inl e \<Rightarrow> Inl e
                                    | Inr hasShared \<Rightarrow>
                                        (case existsAsLink t globalPath of
                                           Inl e \<Rightarrow> Inl e
                                         | Inr hasGlobal \<Rightarrow>
                                             if \<not> hasUser \<or> \<not> hasShared \<or> \<not> hasGlobal then
                                               Inr \<lparr>exists = True, isValid = False,
                                                    isOldStructure = None,
                                                    message' = Some ''thoughts directory exists but symlinks are missing or broken''\<rparr>
                                             else
                                               Inr \<lparr>exists = True, isValid = True,
                                                    isOldStructure = None,
                                                    message' = None\<rparr>)))))))"

section \<open>thoughtsInitCommand: the three directory links\<close>

text \<open>
  The part of \<open>thoughtsInitCommand\<close> from the first \<open>createDirectoryLink\<close> to the check of
  the three results. \<open>exitCode\<close> is the argument of \<open>process.exit\<close>, or \<open>None\<close> when the
  command goes on; \<open>stderr\<close> holds the lines of \<open>console.error\<close> (\<open>chalk.red\<close> only colours
  the text); \<open>linkEnv\<close> is the environment after the three calls.
\<close>

record links_outcome =
  exitCode :: "nat option"
  stderr :: "string list"
  linkEnv :: link_env

definition createThoughtsLinks ::
  "string \<Rightarrow> (string \<Rightarrow> string \<Rightarrow> string) \<Rightarrow> string \<Rightarrow> string \<Rightarrow> string \<Rightarrow> ThoughtsConfig
     \<Rightarrow> link_env \<Rightarrow> links_outcome" where
  "createThoughtsLinks platform join repoTarget globalTarget thoughtsDir config env0 =
     (case createDirectoryLink platform (join repoTarget (user config))
             (join thoughtsDir (user config)) env0 of
        (userLink, env1) \<Rightarrow>
     (case createDirectoryLink platform (join repoTarget ''shared'')
             (join thoughtsDir ''shared'') env1 of
        (sharedLink, env2) \<Rightarrow>
     (case createDirectoryLink platform globalTarget (join thoughtsDir ''global'') env2 of
        (globalLink, env3) \<Rightarrow>
          if \<not> success userLink \<or> \<not> success sharedLink \<or> \<not> success globalLink then
            \<lparr>exitCode = Some 1,
             stderr =
               [''Error: Failed to create directory links'']
               @ (if \<not> success userLink then [''  User: '' @ template (message userLink)] else [])
               @ (if \<not> success sharedLink then [''  Shared: '' @ template (message sharedLink)] else [])
               @ (if \<not> success globalLink then [''  Global: '' @ template (message globalLink)] else []),
             linkEnv = env3\<rparr>
          else \<lparr>exitCode = None, stderr = [], linkEnv = env3\<rparr>)))"

section \<open>platform.ts\<close>

definition isWindows :: "string \<Rightarrow> bool" where
  "isWindows platform = (platform = ''win32'')"

text \<open>
  The calls that \<open>removeReadOnly\<close> and \<open>makeFileExecutable\<close> make, in order. A mode is a
  number (\<open>0o666\<close>, that is 438) or a string (\<open>'755'\<close>).
\<close>

datatype mode = ModeNum nat | ModeStr string

datatype pcall =
    ExecSync string
  | ExistsSync string
  | ReaddirSync string
  | ChmodCall string mode

text \<open>
  What the Windows branch finds at a path: nothing, a directory that \<open>readdirSync\<close> cannot
  read (it throws), or the entries of the directory. An entry has its name and, when its
  \<open>isDirectory()\<close> is true, what is found at its own path.
\<close>

datatype dirent = Dirent string "found option"
  and found = Absent | Unreadable js_value | Listing "dirent list"

text \<open>For which arguments \<open>execSync\<close> and \<open>fs.chmodSync\<close> throw, and what.\<close>

record penv =
  execFailure :: "string \<Rightarrow> js_value option"
  chmodFailure :: "string \<Rightarrow> mode \<Rightarrow> js_value option"

text \<open>A computation gives the calls it made and the value it threw, if any.\<close>

type_synonym effect = "pcall list \<times> js_value option"

text \<open>\<open>a; b\<close>: \<open>b\<close> runs when \<open>a\<close> did not throw.\<close>

definition andThen :: "effect \<Rightarrow> effect \<Rightarrow> effect" where
  "andThen a b = (case a of (cs, Some e) \<Rightarrow> (cs, Some e) | (cs, None) \<Rightarrow> (cs @ fst b, snd b))"

text \<open>\<open>try { a } catch { }\<close>.\<close>

definition tryCatch :: "effect \<Rightarrow> effect" where
  "tryCatch a = (fst a, None)"

definition chmodSyncP :: "penv \<Rightarrow> string \<Rightarrow> mode \<Rightarrow> effect" where
  "chmodSyncP pe p m = ([ChmodCall p m], chmodFailure pe p m)"

definition execSync :: "penv \<Rightarrow> string \<Rightarrow> effect" where
  "execSync pe cmd = ([ExecSync cmd], execFailure pe cmd)"

text \<open>
  \<open>removeReadOnlyRecursive\<close>, and the body of its \<open>for\<close> loop run over the entries that are
  left (\<open>forEntries\<close>).
\<close>

fun removeReadOnlyRecursive ::
    "penv \<Rightarrow> (string \<Rightarrow> string \<Rightarrow> string) \<Rightarrow> found \<Rightarrow> string \<Rightarrow> effect"
  and forEntries ::
    "penv \<Rightarrow> (string \<Rightarrow> string \<Rightarrow> string) \<Rightarrow> dirent list \<Rightarrow> string \<Rightarrow> effect" where
  "removeReadOnlyRecursive pe join Absent dir = ([ExistsSync dir], None)"
| "removeReadOnlyRecursive pe join (Unreadable e) dir = ([ExistsSync dir, ReaddirSync dir], Some e)"
| "removeReadOnlyRecursive pe join (Listing entries) dir =
     andThen ([ExistsSync dir, ReaddirSync dir], None) (forEntries pe join entries dir)"
| "forEntries pe join [] dir = ([], None)"
| "forEntries pe join (Dirent name None # entries) dir =
     andThen (tryCatch (chmodSyncP pe (join dir name) (ModeNum 438)))
       (forEntries pe join entries dir)"
| "forEntries pe join (Dirent name (Some sub) # entries) dir =
     andThen
       (tryCatch
          (andThen (chmodSyncP pe (join dir name) (ModeNum 438))
             (removeReadOnlyRecursive pe join sub (join dir name))))
       (forEntries pe join entries dir)"

text \<open>\<open>tree\<close> is what the Windows branch finds at \<open>dirPath\<close>.\<close>

definition removeReadOnly ::
  "string \<Rightarrow> (string \<Rightarrow> string \<Rightarrow> string) \<Rightarrow> penv \<Rightarrow> found \<Rightarrow> string \<Rightarrow> effect" where
  "removeReadOnly platform join pe tree dirPath =
     (if \<not> isWindows platform then
        tryCatch (execSync pe (''chmod -R 755 '' @ [CHR 0x22] @ dirPath @ [CHR 0x22]))
      else tryCatch (removeReadOnlyRecursive pe join tree dirPath))"

definition makeFileExecutable :: "string \<Rightarrow> penv \<Rightarrow> string \<Rightarrow> effect" where
  "makeFileExecutable platform pe filePath =
     (if \<not> isWindows platform then tryCatch (chmodSyncP pe filePath (ModeStr ''755''))
      else ([], None))"


section \<open>Calling installGitHook twice, and concrete inputs\<close>

text \<open>
  Two calls in a row with the same arguments, the second on the state the first left:
  the results of both, and the call log after each.
\<close>

definition installTwice ::
  "string \<Rightarrow> (string \<Rightarrow> string \<Rightarrow> string) \<Rightarrow> string \<Rightarrow> string \<Rightarrow> string \<Rightarrow> fs
     \<Rightarrow> errno + (hook_result \<times> fs_call list \<times> hook_result \<times> fs_call list)" where
  "installTwice platform join hooksDir hookName content s =
     (case installGitHook platform join hooksDir hookName content s of
        Inl e \<Rightarrow> Inl e
      | Inr (r1, s1) \<Rightarrow>
          (case installGitHook platform join hooksDir hookName content s1 of
             Inl e \<Rightarrow> Inl e
           | Inr (r2, s2) \<Rightarrow> Inr (r1, calls s1, r2, calls s2)))"

text \<open>\<open>path.join\<close> on two plain segments of a POSIX path.\<close>

definition posixJoin :: "string \<Rightarrow> string \<Rightarrow> string" where
  "posixJoin a b = a @ ''/'' @ b"

text \<open>A file system with no file, where \<open>chmodSync\<close> never fails.\<close>

definition emptyFs :: fs where
  "emptyFs = \<lparr>nodes = Map.empty, calls = [], chmodFails = (\<lambda>p. False)\<rparr>"

text \<open>The first three lines of \<open>generatePreCommitHook(version)\<close>.\<close>

definition preCommitHeader :: "string \<Rightarrow> string" where
  "preCommitHeader version =
     ''#!/usr/bin/env node'' @ [CHR 0x0A]
     @ ''// HumanLayer thoughts protection - prevent committing thoughts directory'' @ [CHR 0x0A]
     @ ''// Version: '' @ version @ [CHR 0x0A]"

text \<open>A hooks directory where \<open>pre-commit\<close> holds the given content.\<close>

definition hooksWith :: "string \<Rightarrow> fs" where
  "hooksWith existing =
     emptyFs\<lparr>nodes := [''/repo/.git/hooks/pre-commit'' \<mapsto> File existing]\<rparr>"

text \<open>A hook of another tool, and a content with the product marker and no version number.\<close>

definition foreignHook :: string where
  "foreignHook = ''#!/bin/bash'' @ [CHR 0x0A] @ ''echo hi''"

definition markerOnlyHook :: string where
  "markerOnlyHook = ''// HumanLayer thoughts'' @ [CHR 0x0A] @ ''// Version: next''"

text \<open>
  Environments for \<open>createDirectoryLink\<close>: no link yet, and \<open>symlinkSync\<close> always succeeds,
  always throws the given value, or throws it for one link path only.
\<close>

definition linksOk :: link_env where
  "linksOk = \<lparr>links = Map.empty, symlinkCalls = [], symlinkFailure = (\<lambda>t p k. None)\<rparr>"

definition linksThrow :: "js_value \<Rightarrow> link_env" where
  "linksThrow e = \<lparr>links = Map.empty, symlinkCalls = [], symlinkFailure = (\<lambda>t p k. Some e)\<rparr>"

definition linksThrowAt :: "string \<Rightarrow> js_value \<Rightarrow> link_env" where
  "linksThrowAt path e =
     \<lparr>links = Map.empty, symlinkCalls = [],
      symlinkFailure = (\<lambda>t p k. if p = path then Some e else None)\<rparr>"


text \<open>A configuration, and three states of the \<open>thoughts\<close> directory of \<open>/repo\<close>.\<close>

definition aliceConfig :: ThoughtsConfig where
  "aliceConfig = \<lparr>thoughtsRepo = ''/thoughts'', reposDir = ''repos'', globalDir = ''global'',
     user = ''alice''\<rparr>"

definition oldTree :: tree where
  "oldTree = [''/repo/thoughts'' \<mapsto> Dir,
              ''/repo/thoughts/local'' \<mapsto> Link True,
              ''/repo/thoughts/global'' \<mapsto> Link True]"

definition brokenTree :: tree where
  "brokenTree = [''/repo/thoughts'' \<mapsto> Dir,
                 ''/repo/thoughts/alice'' \<mapsto> Link True,
                 ''/repo/thoughts/shared'' \<mapsto> Link False,
                 ''/repo/thoughts/global'' \<mapsto> Link True]"

definition validTree :: tree where
  "validTree = [''/repo/thoughts'' \<mapsto> Dir,
                ''/repo/thoughts/alice'' \<mapsto> Link True,
                ''/repo/thoughts/shared'' \<mapsto> Link True,
                ''/repo/thoughts/global'' \<mapsto> Link True]"

text \<open>An environment where only the link \<open>shared\<close> cannot be created.\<close>

definition sharedFails :: link_env where
  "sharedFails = linksThrowAt ''/repo/thoughts/shared''
     (JError ''ENOENT: no such file or directory, symlink'')"

text \<open>
  \<open>path.join\<close> on two plain segments of a Windows path, a directory on Windows with two
  subdirectories of one file each, and environments where \<open>chmodSync\<close> throws for one
  path only, or where every call throws.
\<close>

definition win32Join :: "string \<Rightarrow> string \<Rightarrow> string" where
  "win32Join a b = a @ [CHR 0x5C] @ b"

definition searchableDir :: string where
  "searchableDir = ''C:'' @ [CHR 0x5C] @ ''repo'' @ [CHR 0x5C] @ ''thoughts'' @ [CHR 0x5C] @ ''searchable''"

definition searchableTree :: found where
  "searchableTree =
     Listing [Dirent ''alice'' (Some (Listing [Dirent ''todo.md'' None])),
              Dirent ''shared'' (Some (Listing [Dirent ''plan.md'' None]))]"

definition chmodDenied :: "string \<Rightarrow> penv" where
  "chmodDenied path =
     \<lparr>execFailure = (\<lambda>cmd. None),
      chmodFailure = (\<lambda>p m. if p = path then Some (JError ''EPERM: operation not permitted, chmod'') else None)\<rparr>"

definition everythingFails :: penv where
  "everythingFails =
     \<lparr>execFailure = (\<lambda>cmd. Some (JError ''Permission denied'')),
      chmodFailure = (\<lambda>p m. Some (JError ''Access denied''))\<rparr>"

section \<open>Lemmas on installGitHook\<close>

text \<open>No number is smaller than itself, and up to \<open>2 ^ 53\<close> the numbers are the integers.\<close>

lemma jsLess_irrefl [simp]: "\<not> jsLess x x"
  by (cases x) simp_all

lemma bitLength_le: "bitLength n \<le> k \<longleftrightarrow> n < 2 ^ k"
proof (induction n arbitrary: k rule: bitLength.induct)
  case (1 n)
  show ?case
  proof (cases "n = 0")
    case True
    then show ?thesis by (simp add: bitLength.simps)
  next
    case False
    show ?thesis
    proof (cases k)
      case 0
      with False show ?thesis by (simp add: bitLength.simps)
    next
      case (Suc j)
      have "bitLength n \<le> Suc j \<longleftrightarrow> bitLength (n div 2) \<le> j"
        using False by (subst bitLength.simps) simp
      also have "\<dots> \<longleftrightarrow> n div 2 < 2 ^ j"
        using "1.IH" [OF False] by simp
      also have "\<dots> \<longleftrightarrow> n < 2 ^ Suc j"
        by auto
      finally show ?thesis using Suc by simp
    qed
  qed
qed

lemma toNumber_small: "n < 2 ^ 53 \<Longrightarrow> toNumber n = Finite n"
  by (simp add: toNumber_def bitLength_le)

lemma toNumber_2_53: "toNumber 9007199254740992 = Finite 9007199254740992"
  by (simp add: toNumber_def bitLength.simps Let_def)

text \<open>The first integer that is not a double: it reads as its neighbour below.\<close>

lemma toNumber_2_53_1: "toNumber 9007199254740993 = Finite 9007199254740992"
  by (simp add: toNumber_def bitLength.simps Let_def)

lemma toNumber_exact: "n \<le> 9007199254740992 \<Longrightarrow> toNumber n = Finite n"
proof (cases "n = 9007199254740992")
  case True
  then show ?thesis by (simp add: toNumber_2_53)
next
  case False
  assume "n \<le> 9007199254740992"
  with False have "n < 2 ^ 53" by simp
  then show ?thesis by (rule toNumber_small)
qed

lemma jsLess_parseInt_exact:
  assumes "natOfDigits a < natOfDigits b" and "natOfDigits b \<le> 9007199254740992"
  shows "jsLess (parseInt a) (parseInt b)"
  using assms by (simp add: parseInt_def toNumber_exact)

lemma parseInt_2_53: "parseInt ''9007199254740992'' = Finite 9007199254740992"
  by (simp add: parseInt_def natOfDigits_def toNumber_2_53)

lemma parseInt_2_53_1: "parseInt ''9007199254740993'' = Finite 9007199254740992"
  by (simp add: parseInt_def natOfDigits_def toNumber_2_53_1)


lemma makeExecutable_nodes: "nodes (makeExecutable platform s p) = nodes s"
  by (simp add: makeExecutable_def chmodSync_def)

lemma makeExecutable_calls:
  "\<exists>rest. calls (makeExecutable platform s p) = calls s @ rest
     \<and> (rest = [] \<or> rest = [ChmodSync p ''755''])"
  by (simp add: makeExecutable_def chmodSync_def)

lemma hookNeedsVersionUpdate_file:
  assumes "nodes s p = Some (File existing)"
  shows "hookNeedsVersionUpdate s p content =
    Inr (case match_Version existing of
           None \<Rightarrow> True
         | Some ev \<Rightarrow> (case match_Version content of None \<Rightarrow> True
                        | Some nv \<Rightarrow> jsLess (parseInt ev) (parseInt nv)))"
  using assms
  by (simp add: hookNeedsVersionUpdate_def existsSync_def readFileSync_def split: option.splits)

text \<open>No file at the hook path: the content is written, nothing else is touched.\<close>

lemma install_absent:
  assumes "nodes s (join d n) = None"
  shows "installGitHook platform join d n content s =
    Inr (\<lparr>updated = True\<rparr>,
         makeExecutable platform
           (s\<lparr>nodes := (nodes s)(join d n \<mapsto> File content),
              calls := calls s @ [WriteFileSync (join d n) content]\<rparr>) (join d n))"
  using assms
  by (simp add: installGitHook_def needsUpdate_def backupExisting_def existsSync_def
      writeFileSync_def Let_def)

text \<open>A hook without the product marker: renamed to \<open>.old\<close>, then the content is written.\<close>

lemma install_foreign:
  assumes "nodes s (join d n) = Some (File existing)"
    and "\<not> str_includes existing productMarker"
    and "nodes s (join d n @ ''.old'') \<noteq> Some Directory"
  shows "installGitHook platform join d n content s =
    Inr (\<lparr>updated = True\<rparr>,
         makeExecutable platform
           (s\<lparr>nodes := (nodes s)(join d n @ ''.old'' \<mapsto> File existing, join d n \<mapsto> File content),
              calls := calls s @ [RenameSync (join d n) (join d n @ ''.old''),
                                  WriteFileSync (join d n) content]\<rparr>) (join d n))"
proof -
  have nu: "needsUpdate s (join d n) content = Inr True"
    using assms(1,2) by (simp add: needsUpdate_def existsSync_def readFileSync_def)
  have bk: "backupExisting s (join d n) (join d n @ ''.old'') =
      Inr (s\<lparr>nodes := ((nodes s)(join d n := None))(join d n @ ''.old'' \<mapsto> File existing),
             calls := calls s @ [RenameSync (join d n) (join d n @ ''.old'')]\<rparr>)"
    using assms
    by (simp add: backupExisting_def existsSync_def readFileSync_def renameSync_def
        split: option.splits node.splits)
  have m: "((nodes s)(join d n := None))(join d n @ ''.old'' \<mapsto> File existing, join d n \<mapsto> File content)
      = (nodes s)(join d n @ ''.old'' \<mapsto> File existing, join d n \<mapsto> File content)"
    by (rule ext) simp
  show ?thesis
    by (simp add: installGitHook_def nu bk writeFileSync_def Let_def m)
qed

text \<open>A hook with the product marker that needs a version update: removed, then written.\<close>

lemma install_own_stale:
  assumes "nodes s (join d n) = Some (File existing)"
    and "str_includes existing productMarker"
    and "hookNeedsVersionUpdate s (join d n) content = Inr True"
  shows "installGitHook platform join d n content s =
    Inr (\<lparr>updated = True\<rparr>,
         makeExecutable platform
           (s\<lparr>nodes := (nodes s)(join d n \<mapsto> File content),
              calls := calls s @ [UnlinkSync (join d n), WriteFileSync (join d n) content]\<rparr>)
           (join d n))"
proof -
  have nu: "needsUpdate s (join d n) content = Inr True"
    using assms by (simp add: needsUpdate_def existsSync_def readFileSync_def)
  have bk: "backupExisting s (join d n) (join d n @ ''.old'') =
      Inr (s\<lparr>nodes := (nodes s)(join d n := None), calls := calls s @ [UnlinkSync (join d n)]\<rparr>)"
    using assms(1,2)
    by (simp add: backupExisting_def existsSync_def readFileSync_def unlinkSync_def)
  show ?thesis
    by (simp add: installGitHook_def nu bk writeFileSync_def Let_def)
qed

text \<open>A hook with the product marker that needs no version update: nothing happens.\<close>

lemma install_up_to_date:
  assumes "nodes s (join d n) = Some (File existing)"
    and "str_includes existing productMarker"
    and "hookNeedsVersionUpdate s (join d n) content = Inr False"
  shows "installGitHook platform join d n content s = Inr (\<lparr>updated = False\<rparr>, s)"
  using assms
  by (simp add: installGitHook_def needsUpdate_def existsSync_def readFileSync_def Let_def)

lemma install_installed:
  assumes "str_includes content productMarker" and "match_Version content = Some v"
    and "nodes s (join d n) = Some (File content)"
  shows "installGitHook platform join d n content s = Inr (\<lparr>updated = False\<rparr>, s)"
  using assms by (simp add: install_up_to_date hookNeedsVersionUpdate_file)

lemma preCommitHeader_marker: "str_includes (preCommitHeader v) productMarker"
  by (simp add: preCommitHeader_def productMarker_def)

lemma preCommitHeader_version_4: "match_Version (preCommitHeader ''4'') = Some ''4''"
  by (simp add: preCommitHeader_def isDigit_def)

lemma preCommitHeader_version_3: "match_Version (preCommitHeader ''3'') = Some ''3''"
  by (simp add: preCommitHeader_def isDigit_def)

text \<open>What a successful installation leaves: the calls of the backup and the write, then at most the chmod.\<close>

lemma install_writes:
  assumes "installGitHook platform join d n content s =
      Inr (r, makeExecutable platform (s\<lparr>nodes := m, calls := calls s @ cs\<rparr>) (join d n))"
  shows "\<exists>s' rest. installGitHook platform join d n content s = Inr (r, s')
     \<and> calls s' = calls s @ cs @ rest \<and> (rest = [] \<or> rest = [ChmodSync (join d n) ''755''])
     \<and> nodes s' = m"
proof -
  obtain rest where
    "calls (makeExecutable platform (s\<lparr>nodes := m, calls := calls s @ cs\<rparr>) (join d n))
       = calls (s\<lparr>nodes := m, calls := calls s @ cs\<rparr>) @ rest"
    and "rest = [] \<or> rest = [ChmodSync (join d n) ''755'']"
    using makeExecutable_calls by blast
  then show ?thesis
    using assms by (simp add: makeExecutable_nodes)
qed

lemma parseInt_3_4: "jsLess (parseInt ''3'') (parseInt ''4'')"
  by (simp add: parseInt_def natOfDigits_def toNumber_small)

lemma preCommitHeader_version_2_53:
  "match_Version (preCommitHeader ''9007199254740992'') = Some ''9007199254740992''"
  by (simp add: preCommitHeader_def isDigit_def)

lemma preCommitHeader_version_2_53_1:
  "match_Version (preCommitHeader ''9007199254740993'') = Some ''9007199254740993''"
  by (simp add: preCommitHeader_def isDigit_def)

lemma foreignHook_foreign: "\<not> str_includes foreignHook productMarker"
  by (simp add: foreignHook_def productMarker_def)

lemma hooksWith_nodes:
  "nodes (hooksWith c) (posixJoin ''/repo/.git/hooks'' ''pre-commit'') = Some (File c)"
  "nodes (hooksWith c) (posixJoin ''/repo/.git/hooks'' ''pre-commit'' @ ''.old'') = None"
  "calls (hooksWith c) = []"
  by (simp_all add: hooksWith_def posixJoin_def emptyFs_def)

lemma markerOnlyHook_marker: "str_includes markerOnlyHook productMarker"
  by (simp add: markerOnlyHook_def productMarker_def)

lemma markerOnlyHook_version: "match_Version markerOnlyHook = None"
  by (simp add: markerOnlyHook_def isDigit_def)

section \<open>Hook installation: idempotence\<close>

text \<open>
  Claim C1, as the code has it. Let the content embed the product marker
  \<open>HumanLayer thoughts\<close> and an integer version marker, and let neither the hook path nor
  its \<open>.old\<close> path be a directory. Then \<open>installGitHook\<close> returns; its result is
  \<open>{updated:true}\<close> exactly when there is no hook file, or the hook file lacks the product
  marker, or it has no version or a smaller one (the versions compared as the numbers
  that \<open>parseInt\<close> makes of them); and a second call in a row with the same content
  returns \<open>{updated:false}\<close> and writes nothing: every file, and the log of the calls
  that change the file system (write, rename, unlink, chmod), are as the first call
  left them. What the second call does is test for the hook file and read it.
\<close>

theorem installGitHook_idempotent:
  assumes "str_includes content productMarker"
    and "match_Version content = Some v"
    and "nodes s (join hooksDir hookName) \<noteq> Some Directory"
    and "nodes s (join hooksDir hookName @ ''.old'') \<noteq> Some Directory"
  shows "\<exists>r1 s1.
      installGitHook platform join hooksDir hookName content s = Inr (r1, s1)
    \<and> updated r1 =
        (case nodes s (join hooksDir hookName) of
           None \<Rightarrow> True
         | Some Directory \<Rightarrow> False
         | Some (File existing) \<Rightarrow>
             \<not> str_includes existing productMarker
             \<or> (case match_Version existing of
                   None \<Rightarrow> True
                 | Some ev \<Rightarrow> jsLess (parseInt ev) (parseInt v)))
    \<and> installGitHook platform join hooksDir hookName content s1 = Inr (\<lparr>updated = False\<rparr>, s1)"
proof (cases "nodes s (join hooksDir hookName)")
  case None
  then show ?thesis
    using assms(1,2)
    by (simp add: install_absent install_installed makeExecutable_nodes)
next
  case (Some nd)
  with assms(3) obtain existing where e: "nodes s (join hooksDir hookName) = Some (File existing)"
    by (cases nd) auto
  show ?thesis
  proof (cases "str_includes existing productMarker")
    case False
    with e assms show ?thesis
      by (simp add: install_foreign install_installed makeExecutable_nodes)
  next
    case True
    note own = this
    show ?thesis
    proof (cases "case match_Version existing of None \<Rightarrow> True | Some ev \<Rightarrow> jsLess (parseInt ev) (parseInt v)")
      case True
      then have h: "hookNeedsVersionUpdate s (join hooksDir hookName) content = Inr True"
        using e assms(2) by (simp add: hookNeedsVersionUpdate_file split: option.splits)
      note i = install_own_stale [where join = join and d = hooksDir and n = hookName, OF e own h]
      show ?thesis
        using e own True assms(1,2)
        by (simp add: i install_installed makeExecutable_nodes)
    next
      case False
      then have h: "hookNeedsVersionUpdate s (join hooksDir hookName) content = Inr False"
        using e assms(2) by (simp add: hookNeedsVersionUpdate_file split: option.splits)
      have i: "installGitHook platform join hooksDir hookName content s = Inr (\<lparr>updated = False\<rparr>, s)"
        by (rule install_up_to_date [where join = join and d = hooksDir and n = hookName, OF e own h])
      show ?thesis
        using e own False i by simp
    qed
  qed
qed

text \<open>The theorem at an empty hooks directory and the header of the version 4 pre-commit hook.\<close>

theorem installGitHook_idempotent_witness:
  "str_includes (preCommitHeader ''4'') productMarker
   \<and> match_Version (preCommitHeader ''4'') = Some ''4''
   \<and> nodes emptyFs (posixJoin ''/repo/.git/hooks'' ''pre-commit'') \<noteq> Some Directory
   \<and> nodes emptyFs (posixJoin ''/repo/.git/hooks'' ''pre-commit'' @ ''.old'') \<noteq> Some Directory
   \<and> (\<exists>r1 s1.
        installGitHook ''linux'' posixJoin ''/repo/.git/hooks'' ''pre-commit''
          (preCommitHeader ''4'') emptyFs = Inr (r1, s1)
      \<and> updated r1
      \<and> installGitHook ''linux'' posixJoin ''/repo/.git/hooks'' ''pre-commit''
          (preCommitHeader ''4'') s1 = Inr (\<lparr>updated = False\<rparr>, s1))"
  using installGitHook_idempotent [where content = "preCommitHeader ''4''" and v = "''4''"
      and s = emptyFs and join = posixJoin and hooksDir = "''/repo/.git/hooks''"
      and hookName = "''pre-commit''" and platform = "''linux''"]
  by (simp add: preCommitHeader_marker preCommitHeader_version_4 emptyFs_def)

text \<open>
  The claim as stated fails twice. A content with a version marker and no product marker,
  installed into an empty hooks directory: the second call finds a hook without the
  product marker, renames it to \<open>.old\<close> and writes again, \<open>{updated:true}\<close>. And where the
  hook is installed already, the first call returns \<open>{updated:false}\<close>.
\<close>

theorem installGitHook_idempotent_counterexample:
  "installTwice ''linux'' posixJoin ''/repo/.git/hooks'' ''pre-commit'' ''// Version: 1'' emptyFs
     = Inr (\<lparr>updated = True\<rparr>,
            [WriteFileSync ''/repo/.git/hooks/pre-commit'' ''// Version: 1'',
             ChmodSync ''/repo/.git/hooks/pre-commit'' ''755''],
            \<lparr>updated = True\<rparr>,
            [WriteFileSync ''/repo/.git/hooks/pre-commit'' ''// Version: 1'',
             ChmodSync ''/repo/.git/hooks/pre-commit'' ''755'',
             RenameSync ''/repo/.git/hooks/pre-commit'' ''/repo/.git/hooks/pre-commit.old'',
             WriteFileSync ''/repo/.git/hooks/pre-commit'' ''// Version: 1'',
             ChmodSync ''/repo/.git/hooks/pre-commit'' ''755''])
   \<and> installTwice ''linux'' posixJoin ''/repo/.git/hooks'' ''pre-commit'' (preCommitHeader ''4'')
       (hooksWith (preCommitHeader ''4''))
     = Inr (\<lparr>updated = False\<rparr>, [], \<lparr>updated = False\<rparr>, [])"
proof -
  have a: "nodes (hooksWith (preCommitHeader ''4'')) (posixJoin ''/repo/.git/hooks'' ''pre-commit'')
      = Some (File (preCommitHeader ''4''))"
    by (simp add: hooksWith_def posixJoin_def)
  have b: "installGitHook ''linux'' posixJoin ''/repo/.git/hooks'' ''pre-commit''
      (preCommitHeader ''4'') (hooksWith (preCommitHeader ''4''))
      = Inr (\<lparr>updated = False\<rparr>, hooksWith (preCommitHeader ''4''))"
    by (rule install_installed [where join = posixJoin, OF preCommitHeader_marker
          preCommitHeader_version_4 a])
  have c: "calls (hooksWith (preCommitHeader ''4'')) = []"
    by (simp add: hooksWith_def emptyFs_def)
  show ?thesis
    by (simp add: installTwice_def b c)
      (simp add: installGitHook_def needsUpdate_def hookNeedsVersionUpdate_def
        backupExisting_def makeExecutable_def Let_def existsSync_def readFileSync_def
        renameSync_def writeFileSync_def chmodSync_def posixJoin_def emptyFs_def
        productMarker_def isDigit_def)
qed

section \<open>Hook installation: a stale hook is replaced, a foreign hook is backed up\<close>

text \<open>
  Claim C2, as the code has it. Let the hook path hold a regular file. If the file
  contains the product marker and its version is smaller than the version of the new
  content, both taken as the numbers that \<open>parseInt\<close> makes of them, \<open>installGitHook\<close>
  removes the file (\<open>unlinkSync\<close>), writes the new content and makes no backup: the
  \<open>.old\<close> path is as it was. If the file does not contain the product marker (and the
  \<open>.old\<close> path is not a directory), \<open>installGitHook\<close> renames the file to \<open>.old\<close>, never
  removing it, and then writes the new content. In both cases the result is
  \<open>{updated:true}\<close> and the only call that may follow the write is the chmod. The
  numbers are doubles: a smaller integer is a smaller number whenever the larger one is
  at most \<open>2 ^ 53\<close>, which is 9007199254740992.
\<close>

theorem installGitHook_stale_or_foreign:
  assumes "nodes s (join hooksDir hookName) = Some (File existing)"
  shows
   "(str_includes existing productMarker \<and> match_Version existing = Some ev
       \<and> match_Version content = Some nv \<and> jsLess (parseInt ev) (parseInt nv)
     \<longrightarrow> (\<exists>s' rest.
            installGitHook platform join hooksDir hookName content s = Inr (\<lparr>updated = True\<rparr>, s')
          \<and> calls s' = calls s @ [UnlinkSync (join hooksDir hookName),
                                   WriteFileSync (join hooksDir hookName) content] @ rest
          \<and> (rest = [] \<or> rest = [ChmodSync (join hooksDir hookName) ''755''])
          \<and> nodes s' = (nodes s)(join hooksDir hookName \<mapsto> File content)
          \<and> nodes s' (join hooksDir hookName @ ''.old'') = nodes s (join hooksDir hookName @ ''.old'')))
  \<and> (\<not> str_includes existing productMarker
       \<and> nodes s (join hooksDir hookName @ ''.old'') \<noteq> Some Directory
     \<longrightarrow> (\<exists>s' rest.
            installGitHook platform join hooksDir hookName content s = Inr (\<lparr>updated = True\<rparr>, s')
          \<and> calls s' = calls s @ [RenameSync (join hooksDir hookName) (join hooksDir hookName @ ''.old''),
                                   WriteFileSync (join hooksDir hookName) content] @ rest
          \<and> (rest = [] \<or> rest = [ChmodSync (join hooksDir hookName) ''755''])
          \<and> nodes s' = (nodes s)(join hooksDir hookName @ ''.old'' \<mapsto> File existing,
                                  join hooksDir hookName \<mapsto> File content)
          \<and> nodes s' (join hooksDir hookName @ ''.old'') = Some (File existing)))
  \<and> (natOfDigits ev < natOfDigits nv \<and> natOfDigits nv \<le> 9007199254740992
     \<longrightarrow> jsLess (parseInt ev) (parseInt nv))"
proof (intro conjI impI)
  assume a: "str_includes existing productMarker \<and> match_Version existing = Some ev
       \<and> match_Version content = Some nv \<and> jsLess (parseInt ev) (parseInt nv)"
  then have h: "hookNeedsVersionUpdate s (join hooksDir hookName) content = Inr True"
    using assms by (simp add: hookNeedsVersionUpdate_file)
  from a have own: "str_includes existing productMarker" by simp
  note i = install_own_stale [where join = join and d = hooksDir and n = hookName
      and platform = platform, OF assms own h]
  from install_writes [where join = join and d = hooksDir and n = hookName, OF i]
  show "\<exists>s' rest.
            installGitHook platform join hooksDir hookName content s = Inr (\<lparr>updated = True\<rparr>, s')
          \<and> calls s' = calls s @ [UnlinkSync (join hooksDir hookName),
                                   WriteFileSync (join hooksDir hookName) content] @ rest
          \<and> (rest = [] \<or> rest = [ChmodSync (join hooksDir hookName) ''755''])
          \<and> nodes s' = (nodes s)(join hooksDir hookName \<mapsto> File content)
          \<and> nodes s' (join hooksDir hookName @ ''.old'') = nodes s (join hooksDir hookName @ ''.old'')"
    by auto
next
  assume a: "\<not> str_includes existing productMarker
       \<and> nodes s (join hooksDir hookName @ ''.old'') \<noteq> Some Directory"
  then have f: "\<not> str_includes existing productMarker"
    and o: "nodes s (join hooksDir hookName @ ''.old'') \<noteq> Some Directory" by simp_all
  note i = install_foreign [where join = join and d = hooksDir and n = hookName
      and platform = platform and content = content, OF assms f o]
  from install_writes [where join = join and d = hooksDir and n = hookName, OF i]
  show "\<exists>s' rest.
            installGitHook platform join hooksDir hookName content s = Inr (\<lparr>updated = True\<rparr>, s')
          \<and> calls s' = calls s @ [RenameSync (join hooksDir hookName) (join hooksDir hookName @ ''.old''),
                                   WriteFileSync (join hooksDir hookName) content] @ rest
          \<and> (rest = [] \<or> rest = [ChmodSync (join hooksDir hookName) ''755''])
          \<and> nodes s' = (nodes s)(join hooksDir hookName @ ''.old'' \<mapsto> File existing,
                                  join hooksDir hookName \<mapsto> File content)
          \<and> nodes s' (join hooksDir hookName @ ''.old'') = Some (File existing)"
    by auto
next
  assume "natOfDigits ev < natOfDigits nv \<and> natOfDigits nv \<le> 9007199254740992"
  then show "jsLess (parseInt ev) (parseInt nv)"
    by (simp add: jsLess_parseInt_exact)
qed


text \<open>
  The theorem at a version 3 hook replaced by version 4, and at the hook of another tool
  replaced by version 1.
\<close>

theorem installGitHook_stale_or_foreign_witness:
  "(\<exists>s' rest.
      installGitHook ''linux'' posixJoin ''/repo/.git/hooks'' ''pre-commit'' (preCommitHeader ''4'')
        (hooksWith (preCommitHeader ''3'')) = Inr (\<lparr>updated = True\<rparr>, s')
    \<and> calls s' = [UnlinkSync ''/repo/.git/hooks/pre-commit'',
                   WriteFileSync ''/repo/.git/hooks/pre-commit'' (preCommitHeader ''4'')] @ rest
    \<and> nodes s' ''/repo/.git/hooks/pre-commit.old'' = None)
  \<and> (\<exists>s' rest.
      installGitHook ''linux'' posixJoin ''/repo/.git/hooks'' ''pre-commit'' (preCommitHeader ''1'')
        (hooksWith foreignHook) = Inr (\<lparr>updated = True\<rparr>, s')
    \<and> calls s' = [RenameSync ''/repo/.git/hooks/pre-commit'' ''/repo/.git/hooks/pre-commit.old'',
                   WriteFileSync ''/repo/.git/hooks/pre-commit'' (preCommitHeader ''1'')] @ rest
    \<and> nodes s' ''/repo/.git/hooks/pre-commit.old'' = Some (File foreignHook))"
proof -
  note a = installGitHook_stale_or_foreign [where join = posixJoin
      and hooksDir = "''/repo/.git/hooks''" and hookName = "''pre-commit''"
      and platform = "''linux''" and content = "preCommitHeader ''4''" and ev = "''3''"
      and nv = "''4''", OF hooksWith_nodes(1) [of "preCommitHeader ''3''"]]
  note b = installGitHook_stale_or_foreign [where join = posixJoin
      and hooksDir = "''/repo/.git/hooks''" and hookName = "''pre-commit''"
      and platform = "''linux''" and content = "preCommitHeader ''1''",
      OF hooksWith_nodes(1) [of foreignHook]]
  have p: "posixJoin ''/repo/.git/hooks'' ''pre-commit'' = ''/repo/.git/hooks/pre-commit''"
    by (simp add: posixJoin_def)
  from a have "\<exists>s' rest.
      installGitHook ''linux'' posixJoin ''/repo/.git/hooks'' ''pre-commit'' (preCommitHeader ''4'')
        (hooksWith (preCommitHeader ''3'')) = Inr (\<lparr>updated = True\<rparr>, s')
    \<and> calls s' = [UnlinkSync ''/repo/.git/hooks/pre-commit'',
                   WriteFileSync ''/repo/.git/hooks/pre-commit'' (preCommitHeader ''4'')] @ rest
    \<and> nodes s' ''/repo/.git/hooks/pre-commit.old'' = None"
    using hooksWith_nodes(2,3) [of "preCommitHeader ''3''"]
    by (simp add: preCommitHeader_marker preCommitHeader_version_3 preCommitHeader_version_4
        parseInt_3_4 p) blast
  moreover from b have "\<exists>s' rest.
      installGitHook ''linux'' posixJoin ''/repo/.git/hooks'' ''pre-commit'' (preCommitHeader ''1'')
        (hooksWith foreignHook) = Inr (\<lparr>updated = True\<rparr>, s')
    \<and> calls s' = [RenameSync ''/repo/.git/hooks/pre-commit'' ''/repo/.git/hooks/pre-commit.old'',
                   WriteFileSync ''/repo/.git/hooks/pre-commit'' (preCommitHeader ''1'')] @ rest
    \<and> nodes s' ''/repo/.git/hooks/pre-commit.old'' = Some (File foreignHook)"
    using hooksWith_nodes(2,3) [of foreignHook]
    by (simp add: foreignHook_foreign p) blast
  ultimately show ?thesis by blast
qed

text \<open>
  The claim as stated fails where the versions are too large for a double to tell them
  apart. The installed hook has version 9007199254740992 and the product marker, the new
  content has version 9007199254740993, which is larger; \<open>parseInt\<close> reads both as the
  same number, and \<open>installGitHook\<close> returns \<open>{updated:false}\<close> and leaves the hook as it is.
\<close>

theorem installGitHook_stale_or_foreign_counterexample:
  "str_includes (preCommitHeader ''9007199254740992'') productMarker
   \<and> match_Version (preCommitHeader ''9007199254740992'') = Some ''9007199254740992''
   \<and> match_Version (preCommitHeader ''9007199254740993'') = Some ''9007199254740993''
   \<and> natOfDigits ''9007199254740992'' < natOfDigits ''9007199254740993''
   \<and> installGitHook ''linux'' posixJoin ''/repo/.git/hooks'' ''pre-commit''
       (preCommitHeader ''9007199254740993'') (hooksWith (preCommitHeader ''9007199254740992''))
     = Inr (\<lparr>updated = False\<rparr>, hooksWith (preCommitHeader ''9007199254740992''))"
proof -
  have n: "natOfDigits ''9007199254740992'' < natOfDigits ''9007199254740993''"
    by (simp add: natOfDigits_def)
  have h: "hookNeedsVersionUpdate (hooksWith (preCommitHeader ''9007199254740992''))
      (posixJoin ''/repo/.git/hooks'' ''pre-commit'') (preCommitHeader ''9007199254740993'')
      = Inr False"
    by (simp add: hookNeedsVersionUpdate_file [OF hooksWith_nodes(1)]
        preCommitHeader_version_2_53 preCommitHeader_version_2_53_1 parseInt_2_53
        parseInt_2_53_1)
  have i: "installGitHook ''linux'' posixJoin ''/repo/.git/hooks'' ''pre-commit''
       (preCommitHeader ''9007199254740993'') (hooksWith (preCommitHeader ''9007199254740992''))
     = Inr (\<lparr>updated = False\<rparr>, hooksWith (preCommitHeader ''9007199254740992''))"
    by (rule install_up_to_date [where join = posixJoin, OF hooksWith_nodes(1)
          preCommitHeader_marker h])
  show ?thesis
    using n i by (simp add: preCommitHeader_marker preCommitHeader_version_2_53
        preCommitHeader_version_2_53_1)
qed

section \<open>Hook installation: a content without a version number\<close>

text \<open>
  Claim C8. Let the content contain the product marker and no \<open>Version: \<close> followed by
  digits (and let neither the hook path nor its \<open>.old\<close> path be a directory). Then a call
  of \<open>installGitHook\<close> returns \<open>{updated:true}\<close> and writes the hook file, and so does the
  next call, which finds the very content it is about to write: it removes the file and
  writes it again.
\<close>

theorem installGitHook_without_version:
  assumes "str_includes content productMarker"
    and "match_Version content = None"
    and "nodes s (join hooksDir hookName) \<noteq> Some Directory"
    and "nodes s (join hooksDir hookName @ ''.old'') \<noteq> Some Directory"
  shows "\<exists>s1 before rest1 s2 rest2.
      installGitHook platform join hooksDir hookName content s = Inr (\<lparr>updated = True\<rparr>, s1)
    \<and> calls s1 = calls s @ before @ [WriteFileSync (join hooksDir hookName) content] @ rest1
    \<and> nodes s1 (join hooksDir hookName) = Some (File content)
    \<and> installGitHook platform join hooksDir hookName content s1 = Inr (\<lparr>updated = True\<rparr>, s2)
    \<and> calls s2 = calls s1 @ [UnlinkSync (join hooksDir hookName),
                               WriteFileSync (join hooksDir hookName) content] @ rest2
    \<and> nodes s2 (join hooksDir hookName) = Some (File content)"
proof -
  have stale: "hookNeedsVersionUpdate t (join hooksDir hookName) content = Inr True"
    if "nodes t (join hooksDir hookName) = Some (File e)" for t e
    using that assms(2) by (simp add: hookNeedsVersionUpdate_file split: option.splits)
  have first: "\<exists>s1 before rest1.
      installGitHook platform join hooksDir hookName content s = Inr (\<lparr>updated = True\<rparr>, s1)
    \<and> calls s1 = calls s @ before @ [WriteFileSync (join hooksDir hookName) content] @ rest1
    \<and> nodes s1 (join hooksDir hookName) = Some (File content)"
  proof (cases "nodes s (join hooksDir hookName)")
    case None
    from install_writes [where join = join and d = hooksDir and n = hookName,
        OF install_absent [where join = join and d = hooksDir and n = hookName, OF None]]
    show ?thesis by (metis append_Nil fun_upd_same)
  next
    case (Some nd)
    with assms(3) obtain e where e: "nodes s (join hooksDir hookName) = Some (File e)"
      by (cases nd) auto
    show ?thesis
    proof (cases "str_includes e productMarker")
      case True
      from install_writes [where join = join and d = hooksDir and n = hookName,
          OF install_own_stale [where join = join and d = hooksDir and n = hookName,
            OF e True stale [OF e]]]
      obtain s' rest where
        "installGitHook platform join hooksDir hookName content s = Inr (\<lparr>updated = True\<rparr>, s')"
        "calls s' = calls s @ [UnlinkSync (join hooksDir hookName),
           WriteFileSync (join hooksDir hookName) content] @ rest"
        "nodes s' = (nodes s)(join hooksDir hookName \<mapsto> File content)"
        by blast
      then show ?thesis
        by (intro exI [of _ s'] exI [of _ "[UnlinkSync (join hooksDir hookName)]"] exI [of _ rest])
          simp
    next
      case False
      from install_writes [where join = join and d = hooksDir and n = hookName,
          OF install_foreign [where join = join and d = hooksDir and n = hookName,
            OF e False assms(4)]]
      obtain s' rest where
        "installGitHook platform join hooksDir hookName content s = Inr (\<lparr>updated = True\<rparr>, s')"
        "calls s' = calls s @ [RenameSync (join hooksDir hookName) (join hooksDir hookName @ ''.old''),
           WriteFileSync (join hooksDir hookName) content] @ rest"
        "nodes s' = (nodes s)(join hooksDir hookName @ ''.old'' \<mapsto> File e,
            join hooksDir hookName \<mapsto> File content)"
        by blast
      then show ?thesis
        by (intro exI [of _ s']
            exI [of _ "[RenameSync (join hooksDir hookName) (join hooksDir hookName @ ''.old'')]"]
            exI [of _ rest]) simp
    qed
  qed
  then obtain s1 before rest1 where
    1: "installGitHook platform join hooksDir hookName content s = Inr (\<lparr>updated = True\<rparr>, s1)"
      "calls s1 = calls s @ before @ [WriteFileSync (join hooksDir hookName) content] @ rest1"
      "nodes s1 (join hooksDir hookName) = Some (File content)"
    by blast
  from install_writes [where join = join and d = hooksDir and n = hookName,
      OF install_own_stale [where join = join and d = hooksDir and n = hookName,
        OF 1(3) assms(1) stale [OF 1(3)]]]
  obtain s2 rest2 where
    2: "installGitHook platform join hooksDir hookName content s1 = Inr (\<lparr>updated = True\<rparr>, s2)"
      "calls s2 = calls s1 @ [UnlinkSync (join hooksDir hookName),
         WriteFileSync (join hooksDir hookName) content] @ rest2"
      "nodes s2 = (nodes s1)(join hooksDir hookName \<mapsto> File content)"
    by blast
  from 1 2 show ?thesis
    by (intro exI [of _ s1] exI [of _ before] exI [of _ rest1] exI [of _ s2] exI [of _ rest2])
      simp
qed

text \<open>The theorem at a hook path that already holds the content.\<close>

theorem installGitHook_without_version_witness:
  "str_includes markerOnlyHook productMarker
   \<and> match_Version markerOnlyHook = None
   \<and> nodes (hooksWith markerOnlyHook) (posixJoin ''/repo/.git/hooks'' ''pre-commit'')
       \<noteq> Some Directory
   \<and> nodes (hooksWith markerOnlyHook) (posixJoin ''/repo/.git/hooks'' ''pre-commit'' @ ''.old'')
       \<noteq> Some Directory
   \<and> (\<exists>s1 before rest1 s2 rest2.
        installGitHook ''linux'' posixJoin ''/repo/.git/hooks'' ''pre-commit'' markerOnlyHook
          (hooksWith markerOnlyHook) = Inr (\<lparr>updated = True\<rparr>, s1)
      \<and> calls s1 = before @ [WriteFileSync ''/repo/.git/hooks/pre-commit'' markerOnlyHook] @ rest1
      \<and> nodes s1 ''/repo/.git/hooks/pre-commit'' = Some (File markerOnlyHook)
      \<and> installGitHook ''linux'' posixJoin ''/repo/.git/hooks'' ''pre-commit'' markerOnlyHook s1
          = Inr (\<lparr>updated = True\<rparr>, s2)
      \<and> calls s2 = calls s1 @ [UnlinkSync ''/repo/.git/hooks/pre-commit'',
                                 WriteFileSync ''/repo/.git/hooks/pre-commit'' markerOnlyHook] @ rest2
      \<and> nodes s2 ''/repo/.git/hooks/pre-commit'' = Some (File markerOnlyHook))"
proof -
  have p: "posixJoin ''/repo/.git/hooks'' ''pre-commit'' = ''/repo/.git/hooks/pre-commit''"
    by (simp add: posixJoin_def)
  have d: "nodes (hooksWith markerOnlyHook) (posixJoin ''/repo/.git/hooks'' ''pre-commit'')
       \<noteq> Some Directory"
    "nodes (hooksWith markerOnlyHook) (posixJoin ''/repo/.git/hooks'' ''pre-commit'' @ ''.old'')
       \<noteq> Some Directory"
    by (simp_all add: hooksWith_nodes)
  from installGitHook_without_version [where join = posixJoin
      and hooksDir = "''/repo/.git/hooks''" and hookName = "''pre-commit''"
      and platform = "''linux''" and s = "hooksWith markerOnlyHook",
      OF markerOnlyHook_marker markerOnlyHook_version d]
  show ?thesis
    using d by (simp add: markerOnlyHook_marker markerOnlyHook_version hooksWith_nodes(3) p)
qed

section \<open>Lemmas on createDirectoryLink\<close>

text \<open>
  \<open>createDirectoryLink\<close> calls \<open>symlinkSync\<close> once, with the kind of link of the platform;
  its result is decided by what that call throws.
\<close>

lemma symlinkSync_calls:
  "symlinkCalls (snd (symlinkSync env target path kind)) = symlinkCalls env @ [(target, path, kind)]"
  by (simp add: symlinkSync_def Let_def split: option.splits)

lemma createDirectoryLink_thrown:
  assumes "fst (symlinkSync env target linkPath (if platform = ''win32'' then ''junction'' else ''dir''))
      = Some error"
  shows "fst (createDirectoryLink platform target linkPath env)
      = linkFailed (platform = ''win32'') error"
  using assms
  by (cases "symlinkSync env target linkPath (if platform = ''win32'' then ''junction'' else ''dir'')")
    (auto simp add: createDirectoryLink_def Let_def split: if_splits)

lemma createDirectoryLink_created:
  assumes "fst (symlinkSync env target linkPath (if platform = ''win32'' then ''junction'' else ''dir''))
      = None"
  shows "fst (createDirectoryLink platform target linkPath env)
      = \<lparr>success = True, type = (if platform = ''win32'' then junction else symlink), message = None\<rparr>"
  using assms
  by (cases "symlinkSync env target linkPath (if platform = ''win32'' then ''junction'' else ''dir'')")
    (auto simp add: createDirectoryLink_def Let_def split: if_splits)

lemma createDirectoryLink_env:
  "snd (createDirectoryLink platform target linkPath env)
     = snd (symlinkSync env target linkPath (if platform = ''win32'' then ''junction'' else ''dir''))"
  by (cases "symlinkSync env target linkPath (if platform = ''win32'' then ''junction'' else ''dir'')")
    (auto simp add: createDirectoryLink_def Let_def split: if_splits option.splits)


lemma symlinkSync_linksOk:
  "fst (symlinkSync linksOk target path kind) = None"
  by (simp add: symlinkSync_def linksOk_def)

section \<open>createDirectoryLink: the message of a failure\<close>



section \<open>createDirectoryLink: the kind of link follows the platform\<close>

text \<open>
  Claim C5. On every platform other than \<open>win32\<close>, \<open>createDirectoryLink\<close> asks
  \<open>fs.symlinkSync\<close> for a link of kind \<open>dir\<close> and reports the type \<open>symlink\<close>; on \<open>win32\<close>
  it asks for kind \<open>junction\<close> and reports the type \<open>junction\<close>. This holds in every
  environment: whatever links exist, and whether the call succeeds or throws.
\<close>

theorem createDirectoryLink_kind:
  "(platform \<noteq> ''win32''
      \<longrightarrow> symlinkCalls (snd (createDirectoryLink platform target linkPath env))
            = symlinkCalls env @ [(target, linkPath, ''dir'')]
        \<and> type (fst (createDirectoryLink platform target linkPath env)) = symlink)
  \<and> (platform = ''win32''
      \<longrightarrow> symlinkCalls (snd (createDirectoryLink platform target linkPath env))
            = symlinkCalls env @ [(target, linkPath, ''junction'')]
        \<and> type (fst (createDirectoryLink platform target linkPath env)) = junction)"
proof -
  have c: "symlinkCalls (snd (createDirectoryLink platform target linkPath env))
      = symlinkCalls env
        @ [(target, linkPath, if platform = ''win32'' then ''junction'' else ''dir'')]"
    by (simp only: createDirectoryLink_env symlinkSync_calls)
  have t: "type (fst (createDirectoryLink platform target linkPath env))
      = (if platform = ''win32'' then junction else symlink)"
  proof (cases "fst (symlinkSync env target linkPath
      (if platform = ''win32'' then ''junction'' else ''dir''))")
    case None
    show ?thesis
      unfolding createDirectoryLink_created [OF None] by simp
  next
    case (Some error)
    show ?thesis
      unfolding createDirectoryLink_thrown [OF Some] by (simp add: linkFailed_def)
  qed
  show ?thesis
    unfolding c t by simp
qed

text \<open>The theorem at a success on \<open>linux\<close> and at a failure on \<open>win32\<close>.\<close>

theorem createDirectoryLink_kind_witness:
  "symlinkCalls (snd (createDirectoryLink ''linux'' ''/path/to/target'' ''/path/to/link'' linksOk))
     = [(''/path/to/target'', ''/path/to/link'', ''dir'')]
   \<and> type (fst (createDirectoryLink ''linux'' ''/path/to/target'' ''/path/to/link'' linksOk))
     = symlink
   \<and> symlinkCalls (snd (createDirectoryLink ''win32'' ''/path/to/target'' ''/path/to/link''
        (linksThrow (JError ''Target does not exist''))))
     = [(''/path/to/target'', ''/path/to/link'', ''junction'')]
   \<and> type (fst (createDirectoryLink ''win32'' ''/path/to/target'' ''/path/to/link''
        (linksThrow (JError ''Target does not exist''))))
     = junction"
  using createDirectoryLink_kind [where platform = "''linux''" and env = linksOk
      and target = "''/path/to/target''" and linkPath = "''/path/to/link''"]
    createDirectoryLink_kind [where platform = "''win32''"
      and env = "linksThrow (JError ''Target does not exist'')"
      and target = "''/path/to/target''" and linkPath = "''/path/to/link''"]
  by (simp add: linksOk_def linksThrow_def)

section \<open>createDirectoryLink: which thrown values become a result\<close>

text \<open>
  On the values of \<open>js_value\<close> the \<open>catch\<close> block throws nothing, and
  \<open>createDirectoryLinkAny\<close> gives the result of \<open>createDirectoryLink\<close>.
\<close>

lemma linkFailedAny_asThrown:
  "linkFailedAny isWin (asThrown error) = Inr (asAnyResult (linkFailed isWin error))"
  by (cases error)
    (simp_all add: linkFailedAny_def errorMessageAny_def includesEPERM_def asThrown_def
      asAnyResult_def linkFailed_def errorMessage_def)

lemma createDirectoryLinkAny_asThrown:
  "createDirectoryLinkAny platform
     (\<lambda>t p k. map_option asThrown (fst (symlinkSync env t p k))) target linkPath
   = Inr (asAnyResult (fst (createDirectoryLink platform target linkPath env)))"
proof (cases "fst (symlinkSync env target linkPath
    (if platform = ''win32'' then ''junction'' else ''dir''))")
  case None
  have "createDirectoryLinkAny platform
     (\<lambda>t p k. map_option asThrown (fst (symlinkSync env t p k))) target linkPath
     = Inr \<lparr>anySuccess = True, anyType = (if platform = ''win32'' then junction else symlink),
            anyMessage = None\<rparr>"
    using None by (cases "platform = ''win32''") (simp_all add: createDirectoryLinkAny_def)
  then show ?thesis
    unfolding createDirectoryLink_created [OF None] by (simp add: asAnyResult_def)
next
  case (Some error)
  have "createDirectoryLinkAny platform
     (\<lambda>t p k. map_option asThrown (fst (symlinkSync env t p k))) target linkPath
     = linkFailedAny (platform = ''win32'') (asThrown error)"
    using Some by (cases "platform = ''win32''") (simp_all add: createDirectoryLinkAny_def)
  then show ?thesis
    unfolding createDirectoryLink_thrown [OF Some] by (simp add: linkFailedAny_asThrown)
qed




section \<open>checkExistingSetup: the order of the checks\<close>

lemma existsAsLink_eq: "existsAsLink t p = Inr (t p = Some (Link True))"
proof (cases "t p")
  case None
  then show ?thesis by (simp add: existsAsLink_def existsSync'_def)
next
  case (Some n)
  then show ?thesis
    by (cases n) (auto simp add: existsAsLink_def existsSync'_def lstatSync_def)
qed

text \<open>
  Claim C3. Let \<open>thoughts\<close> be a directory. A path counts as a link when it holds a link
  whose target resolves, which is what \<open>existsSync\<close> and \<open>lstatSync().isSymbolicLink()\<close>
  test together. If \<open>thoughts/local\<close> is a link, the result is
  \<open>{exists:true, isValid:false, isOldStructure:true}\<close> with the message of the old
  structure, whatever the configuration (present or absent) and whatever stands at the
  three expected paths: this check comes before the check of the configuration and
  before the checks of the three links. If \<open>thoughts/local\<close> is not a link and a
  configuration is given, then the result is \<open>{exists:true, isValid:false}\<close> with the
  message \<open>symlinks are missing or broken\<close> when one of \<open>thoughts/<user>\<close>,
  \<open>thoughts/shared\<close>, \<open>thoughts/global\<close> is not a link, and
  \<open>{exists:true, isValid:true}\<close> when all three are.
\<close>

theorem checkExistingSetup_order:
  assumes "t (join cwd ''thoughts'') = Some Dir"
  shows
   "(t (join (join cwd ''thoughts'') ''local'') = Some (Link True)
      \<longrightarrow> checkExistingSetup cwd join t config
          = Inr \<lparr>exists = True, isValid = False, isOldStructure = Some True,
                 message' = Some ''thoughts directory uses old structure (needs upgrade)''\<rparr>)
  \<and> (t (join (join cwd ''thoughts'') ''local'') \<noteq> Some (Link True) \<and> config = Some cfg
      \<and> (t (join (join cwd ''thoughts'') (user cfg)) \<noteq> Some (Link True)
         \<or> t (join (join cwd ''thoughts'') ''shared'') \<noteq> Some (Link True)
         \<or> t (join (join cwd ''thoughts'') ''global'') \<noteq> Some (Link True))
      \<longrightarrow> checkExistingSetup cwd join t config
          = Inr \<lparr>exists = True, isValid = False, isOldStructure = None,
                 message' = Some ''thoughts directory exists but symlinks are missing or broken''\<rparr>)
  \<and> (t (join (join cwd ''thoughts'') ''local'') \<noteq> Some (Link True) \<and> config = Some cfg
      \<and> t (join (join cwd ''thoughts'') (user cfg)) = Some (Link True)
      \<and> t (join (join cwd ''thoughts'') ''shared'') = Some (Link True)
      \<and> t (join (join cwd ''thoughts'') ''global'') = Some (Link True)
      \<longrightarrow> checkExistingSetup cwd join t config
          = Inr \<lparr>exists = True, isValid = True, isOldStructure = None, message' = None\<rparr>)"
  using assms
  by (auto simp add: checkExistingSetup_def Let_def existsAsLink_eq existsSync'_def lstatSync_def)

text \<open>
  The theorem at an old structure without \<open>shared\<close> (with and without a configuration),
  at a tree whose \<open>shared\<close> link dangles, and at a valid tree.
\<close>

theorem checkExistingSetup_order_witness:
  "oldTree (posixJoin ''/repo'' ''thoughts'') = Some Dir
   \<and> oldTree (posixJoin (posixJoin ''/repo'' ''thoughts'') ''local'') = Some (Link True)
   \<and> oldTree (posixJoin (posixJoin ''/repo'' ''thoughts'') ''shared'') = None
   \<and> checkExistingSetup ''/repo'' posixJoin oldTree (Some aliceConfig)
       = Inr \<lparr>exists = True, isValid = False, isOldStructure = Some True,
              message' = Some ''thoughts directory uses old structure (needs upgrade)''\<rparr>
   \<and> checkExistingSetup ''/repo'' posixJoin oldTree None
       = Inr \<lparr>exists = True, isValid = False, isOldStructure = Some True,
              message' = Some ''thoughts directory uses old structure (needs upgrade)''\<rparr>
   \<and> checkExistingSetup ''/repo'' posixJoin brokenTree (Some aliceConfig)
       = Inr \<lparr>exists = True, isValid = False, isOldStructure = None,
              message' = Some ''thoughts directory exists but symlinks are missing or broken''\<rparr>
   \<and> checkExistingSetup ''/repo'' posixJoin validTree (Some aliceConfig)
       = Inr \<lparr>exists = True, isValid = True, isOldStructure = None, message' = None\<rparr>"
proof -
  have o: "oldTree (posixJoin ''/repo'' ''thoughts'') = Some Dir"
    and b: "brokenTree (posixJoin ''/repo'' ''thoughts'') = Some Dir"
    and v: "validTree (posixJoin ''/repo'' ''thoughts'') = Some Dir"
    by (simp_all add: oldTree_def brokenTree_def validTree_def posixJoin_def)
  note w1 = checkExistingSetup_order [where join = posixJoin and cwd = "''/repo''"
      and config = "Some aliceConfig" and cfg = aliceConfig and t = oldTree, OF o]
  note w2 = checkExistingSetup_order [where join = posixJoin and cwd = "''/repo''"
      and config = None and cfg = aliceConfig and t = oldTree, OF o]
  note w3 = checkExistingSetup_order [where join = posixJoin and cwd = "''/repo''"
      and config = "Some aliceConfig" and cfg = aliceConfig and t = brokenTree, OF b]
  note w4 = checkExistingSetup_order [where join = posixJoin and cwd = "''/repo''"
      and config = "Some aliceConfig" and cfg = aliceConfig and t = validTree, OF v]
  have 1: "checkExistingSetup ''/repo'' posixJoin oldTree (Some aliceConfig)
       = Inr \<lparr>exists = True, isValid = False, isOldStructure = Some True,
              message' = Some ''thoughts directory uses old structure (needs upgrade)''\<rparr>"
    using w1 by (simp add: oldTree_def posixJoin_def)
  have 2: "checkExistingSetup ''/repo'' posixJoin oldTree None
       = Inr \<lparr>exists = True, isValid = False, isOldStructure = Some True,
              message' = Some ''thoughts directory uses old structure (needs upgrade)''\<rparr>"
    using w2 by (simp add: oldTree_def posixJoin_def)
  have 3: "checkExistingSetup ''/repo'' posixJoin brokenTree (Some aliceConfig)
       = Inr \<lparr>exists = True, isValid = False, isOldStructure = None,
              message' = Some ''thoughts directory exists but symlinks are missing or broken''\<rparr>"
    using w3 by (simp add: brokenTree_def posixJoin_def aliceConfig_def)
  have 4: "checkExistingSetup ''/repo'' posixJoin validTree (Some aliceConfig)
       = Inr \<lparr>exists = True, isValid = True, isOldStructure = None, message' = None\<rparr>"
    using w4 by (simp add: validTree_def posixJoin_def aliceConfig_def)
  show ?thesis
    using 1 2 3 4 by (simp add: oldTree_def posixJoin_def)
qed

section \<open>thoughtsInitCommand: failures of the three links\<close>

text \<open>Links are only ever added: a failed call leaves them as they are.\<close>

lemma symlinkSync_keeps_links:
  assumes "links env p = Some x"
  shows "links (snd (symlinkSync env target path kind)) p = Some x"
proof (cases "p = path")
  case True
  with assms show ?thesis
    by (cases "symlinkFailure env target path kind") (simp_all add: symlinkSync_def Let_def)
next
  case False
  with assms show ?thesis
    by (cases "symlinkFailure env target path kind") (simp_all add: symlinkSync_def Let_def)
qed

lemma symlinkSync_adds_link:
  assumes "fst (symlinkSync env target path kind) = None"
  shows "links (snd (symlinkSync env target path kind)) path = Some (target, kind)"
  using assms by (auto simp add: symlinkSync_def Let_def split: option.splits if_splits)

lemma createDirectoryLink_success:
  "success (fst (createDirectoryLink platform target linkPath env))
     = (fst (symlinkSync env target linkPath (if platform = ''win32'' then ''junction'' else ''dir''))
          = None)"
proof (cases "fst (symlinkSync env target linkPath
    (if platform = ''win32'' then ''junction'' else ''dir''))")
  case None
  show ?thesis
    unfolding createDirectoryLink_created [OF None] using None by simp
next
  case (Some error)
  show ?thesis
    unfolding createDirectoryLink_thrown [OF Some] using Some by (simp add: linkFailed_def)
qed

lemma createDirectoryLink_keeps_links:
  assumes "links env p = Some x"
  shows "links (snd (createDirectoryLink platform target linkPath env)) p = Some x"
  unfolding createDirectoryLink_env by (rule symlinkSync_keeps_links [OF assms])

lemma createDirectoryLink_adds_link:
  assumes "success (fst (createDirectoryLink platform target linkPath env))"
  shows "links (snd (createDirectoryLink platform target linkPath env)) linkPath
     = Some (target, if platform = ''win32'' then ''junction'' else ''dir'')"
  unfolding createDirectoryLink_env
  using assms unfolding createDirectoryLink_success by (rule symlinkSync_adds_link)

lemma createDirectoryLink_calls:
  "symlinkCalls (snd (createDirectoryLink platform target linkPath env))
     = symlinkCalls env @ [(target, linkPath, if platform = ''win32'' then ''junction'' else ''dir'')]"
  by (simp only: createDirectoryLink_env symlinkSync_calls)

text \<open>
  Claim C6. Let \<open>userLink\<close>, \<open>sharedLink\<close> and \<open>globalLink\<close> be the results of the three
  calls of \<open>createDirectoryLink\<close>, made in this order, each in the environment the call
  before it left. Then the command exits with code 1 exactly when one of the three has
  \<open>success:false\<close>, and goes on otherwise; every failed link has its own line on the
  error stream, with its label and its message; every link that was created is still
  there when the command exits; and the only calls made are the three calls of
  \<open>symlinkSync\<close>: nothing is removed.
\<close>

theorem createThoughtsLinks_failures:
  assumes u: "createDirectoryLink platform (join repoTarget (user config))
        (join thoughtsDir (user config)) env = (userLink, envU)"
    and s: "createDirectoryLink platform (join repoTarget ''shared'')
        (join thoughtsDir ''shared'') envU = (sharedLink, envS)"
    and g: "createDirectoryLink platform globalTarget (join thoughtsDir ''global'') envS
        = (globalLink, envG)"
    and out: "out = createThoughtsLinks platform join repoTarget globalTarget thoughtsDir config env"
    and kind: "kind = (if platform = ''win32'' then ''junction'' else ''dir'')"
  shows
   "exitCode out
      = (if success userLink \<and> success sharedLink \<and> success globalLink then None else Some 1)
  \<and> (\<not> success userLink \<longrightarrow> ''  User: '' @ template (message userLink) \<in> set (stderr out))
  \<and> (\<not> success sharedLink \<longrightarrow> ''  Shared: '' @ template (message sharedLink) \<in> set (stderr out))
  \<and> (\<not> success globalLink \<longrightarrow> ''  Global: '' @ template (message globalLink) \<in> set (stderr out))
  \<and> (success userLink \<longrightarrow>
        links (linkEnv out) (join thoughtsDir (user config))
          = Some (join repoTarget (user config), kind))
  \<and> (success sharedLink \<longrightarrow>
        links (linkEnv out) (join thoughtsDir ''shared'') = Some (join repoTarget ''shared'', kind))
  \<and> (success globalLink \<longrightarrow>
        links (linkEnv out) (join thoughtsDir ''global'') = Some (globalTarget, kind))
  \<and> symlinkCalls (linkEnv out)
      = symlinkCalls env
        @ [(join repoTarget (user config), join thoughtsDir (user config), kind),
           (join repoTarget ''shared'', join thoughtsDir ''shared'', kind),
           (globalTarget, join thoughtsDir ''global'', kind)]"
proof -
  have env: "linkEnv out = envG"
    by (simp add: out createThoughtsLinks_def u s g)
  have e1: "envU = snd (createDirectoryLink platform (join repoTarget (user config))
        (join thoughtsDir (user config)) env)"
    and r1: "userLink = fst (createDirectoryLink platform (join repoTarget (user config))
        (join thoughtsDir (user config)) env)"
    by (simp_all add: u)
  have e2: "envS = snd (createDirectoryLink platform (join repoTarget ''shared'')
        (join thoughtsDir ''shared'') envU)"
    and r2: "sharedLink = fst (createDirectoryLink platform (join repoTarget ''shared'')
        (join thoughtsDir ''shared'') envU)"
    by (simp_all add: s)
  have e3: "envG = snd (createDirectoryLink platform globalTarget (join thoughtsDir ''global'') envS)"
    and r3: "globalLink = fst (createDirectoryLink platform globalTarget
        (join thoughtsDir ''global'') envS)"
    by (simp_all add: g)
  have code: "exitCode out
      = (if success userLink \<and> success sharedLink \<and> success globalLink then None else Some 1)"
    by (simp add: out createThoughtsLinks_def u s g)
  have err: "\<not> success userLink \<longrightarrow> ''  User: '' @ template (message userLink) \<in> set (stderr out)"
    "\<not> success sharedLink \<longrightarrow> ''  Shared: '' @ template (message sharedLink) \<in> set (stderr out)"
    "\<not> success globalLink \<longrightarrow> ''  Global: '' @ template (message globalLink) \<in> set (stderr out)"
    by (simp_all add: out createThoughtsLinks_def u s g)
  have l1: "links envG (join thoughtsDir (user config))
      = Some (join repoTarget (user config), kind)" if "success userLink"
  proof -
    have "links envU (join thoughtsDir (user config))
        = Some (join repoTarget (user config), kind)"
      unfolding e1 kind using that unfolding r1 by (rule createDirectoryLink_adds_link)
    then have "links envS (join thoughtsDir (user config))
        = Some (join repoTarget (user config), kind)"
      unfolding e2 by (rule createDirectoryLink_keeps_links)
    then show ?thesis
      unfolding e3 by (rule createDirectoryLink_keeps_links)
  qed
  have l2: "links envG (join thoughtsDir ''shared'') = Some (join repoTarget ''shared'', kind)"
    if "success sharedLink"
  proof -
    have "links envS (join thoughtsDir ''shared'') = Some (join repoTarget ''shared'', kind)"
      unfolding e2 kind using that unfolding r2 by (rule createDirectoryLink_adds_link)
    then show ?thesis
      unfolding e3 by (rule createDirectoryLink_keeps_links)
  qed
  have l3: "links envG (join thoughtsDir ''global'') = Some (globalTarget, kind)"
    if "success globalLink"
    unfolding e3 kind using that unfolding r3 by (rule createDirectoryLink_adds_link)
  have c: "symlinkCalls envG
      = symlinkCalls env
        @ [(join repoTarget (user config), join thoughtsDir (user config), kind),
           (join repoTarget ''shared'', join thoughtsDir ''shared'', kind),
           (globalTarget, join thoughtsDir ''global'', kind)]"
    unfolding e3 e2 e1 createDirectoryLink_calls kind by simp
  show ?thesis
    unfolding env using code err l1 l2 l3 c by blast
qed

text \<open>The theorem where \<open>user\<close> and \<open>global\<close> are created and \<open>shared\<close> fails.\<close>

theorem createThoughtsLinks_failures_witness:
  "exitCode (createThoughtsLinks ''linux'' posixJoin ''/thoughts/repos/app'' ''/thoughts/global''
       ''/repo/thoughts'' aliceConfig sharedFails) = Some 1
   \<and> stderr (createThoughtsLinks ''linux'' posixJoin ''/thoughts/repos/app'' ''/thoughts/global''
       ''/repo/thoughts'' aliceConfig sharedFails)
     = [''Error: Failed to create directory links'',
        ''  Shared: ENOENT: no such file or directory, symlink'']
   \<and> links (linkEnv (createThoughtsLinks ''linux'' posixJoin ''/thoughts/repos/app''
       ''/thoughts/global'' ''/repo/thoughts'' aliceConfig sharedFails)) ''/repo/thoughts/alice''
     = Some (''/thoughts/repos/app/alice'', ''dir'')
   \<and> links (linkEnv (createThoughtsLinks ''linux'' posixJoin ''/thoughts/repos/app''
       ''/thoughts/global'' ''/repo/thoughts'' aliceConfig sharedFails)) ''/repo/thoughts/global''
     = Some (''/thoughts/global'', ''dir'')
   \<and> symlinkCalls (linkEnv (createThoughtsLinks ''linux'' posixJoin ''/thoughts/repos/app''
       ''/thoughts/global'' ''/repo/thoughts'' aliceConfig sharedFails))
     = [(''/thoughts/repos/app/alice'', ''/repo/thoughts/alice'', ''dir''),
        (''/thoughts/repos/app/shared'', ''/repo/thoughts/shared'', ''dir''),
        (''/thoughts/global'', ''/repo/thoughts/global'', ''dir'')]"
proof -
  define r1 where "r1 = createDirectoryLink ''linux'' (posixJoin ''/thoughts/repos/app'' (user aliceConfig))
        (posixJoin ''/repo/thoughts'' (user aliceConfig)) sharedFails"
  define r2 where "r2 = createDirectoryLink ''linux'' (posixJoin ''/thoughts/repos/app'' ''shared'')
        (posixJoin ''/repo/thoughts'' ''shared'') (snd r1)"
  define r3 where "r3 = createDirectoryLink ''linux'' ''/thoughts/global''
        (posixJoin ''/repo/thoughts'' ''global'') (snd r2)"
  have u: "createDirectoryLink ''linux'' (posixJoin ''/thoughts/repos/app'' (user aliceConfig))
        (posixJoin ''/repo/thoughts'' (user aliceConfig)) sharedFails = (fst r1, snd r1)"
    and s: "createDirectoryLink ''linux'' (posixJoin ''/thoughts/repos/app'' ''shared'')
        (posixJoin ''/repo/thoughts'' ''shared'') (snd r1) = (fst r2, snd r2)"
    and g: "createDirectoryLink ''linux'' ''/thoughts/global''
        (posixJoin ''/repo/thoughts'' ''global'') (snd r2) = (fst r3, snd r3)"
    by (simp_all add: r1_def r2_def r3_def)
  have v1: "r1 = (\<lparr>success = True, type = symlink, message = None\<rparr>,
      sharedFails\<lparr>symlinkCalls := [(''/thoughts/repos/app/alice'', ''/repo/thoughts/alice'', ''dir'')],
        links := [''/repo/thoughts/alice'' \<mapsto> (''/thoughts/repos/app/alice'', ''dir'')]\<rparr>)"
    by (simp add: r1_def createDirectoryLink_def symlinkSync_def sharedFails_def linksThrowAt_def
        posixJoin_def aliceConfig_def Let_def)
  have v2: "fst r2 = \<lparr>success = False, type = symlink,
      message = Some ''ENOENT: no such file or directory, symlink''\<rparr>"
    by (simp add: r2_def v1 createDirectoryLink_def symlinkSync_def sharedFails_def
        linksThrowAt_def posixJoin_def Let_def linkFailed_def errorMessage_def)
  have v3: "success (fst r3)"
    by (simp add: r3_def r2_def v1 createDirectoryLink_def symlinkSync_def sharedFails_def
        linksThrowAt_def posixJoin_def Let_def linkFailed_def errorMessage_def)
  note w = createThoughtsLinks_failures [where platform = "''linux''" and join = posixJoin
      and repoTarget = "''/thoughts/repos/app''" and globalTarget = "''/thoughts/global''"
      and thoughtsDir = "''/repo/thoughts''" and config = aliceConfig and env = sharedFails
      and kind = "''dir''", OF u s g refl]
  have e: "stderr (createThoughtsLinks ''linux'' posixJoin ''/thoughts/repos/app'' ''/thoughts/global''
       ''/repo/thoughts'' aliceConfig sharedFails)
     = [''Error: Failed to create directory links'',
        ''  Shared: ENOENT: no such file or directory, symlink'']"
  proof -
    have "success (fst r1)" by (simp add: v1)
    then show ?thesis
      using v2 v3 by (simp add: createThoughtsLinks_def u s g case_prod_beta)
  qed
  show ?thesis
    using w e v1 v2 v3 by (simp add: posixJoin_def aliceConfig_def sharedFails_def linksThrowAt_def)
qed

section \<open>platform.ts: nothing is raised, and a failed chmod skips the subtree\<close>

lemma andThen_None [simp]: "andThen (cs, None) b = (cs @ fst b, snd b)"
  by (simp add: andThen_def)

lemma andThen_Some [simp]: "andThen (cs, Some e) b = (cs, Some e)"
  by (simp add: andThen_def)

lemma tryCatch_pair [simp]: "tryCatch (cs, r) = (cs, None)"
  by (simp add: tryCatch_def)

lemma tryCatch_snd [simp]: "snd (tryCatch a) = None"
  by (simp add: tryCatch_def)

lemma forEntries_returns: "snd (forEntries pe join entries dir) = None"
proof (induction entries)
  case Nil
  show ?case by simp
next
  case (Cons e entries)
  obtain name sub where e: "e = Dirent name sub" by (cases e)
  show ?case
  proof (cases sub)
    case None
    with e Cons show ?thesis by (simp add: tryCatch_def)
  next
    case (Some d)
    with e Cons show ?thesis by (simp add: tryCatch_def)
  qed
qed

lemma forEntries_append:
  "forEntries pe join (before @ after) dir
     = (fst (forEntries pe join before dir) @ fst (forEntries pe join after dir), None)"
proof (induction before)
  case Nil
  show ?case
    using forEntries_returns [of pe join after dir] by (simp add: prod_eq_iff)
next
  case (Cons e before)
  obtain name sub where e: "e = Dirent name sub" by (cases e)
  show ?case
  proof (cases sub)
    case None
    with e Cons show ?thesis by (simp add: tryCatch_def)
  next
    case (Some d)
    with e Cons show ?thesis by (simp add: tryCatch_def)
  qed
qed

lemma forEntries_chmod_fails:
  assumes "chmodFailure pe (join dir name) (ModeNum 438) = Some e"
  shows "forEntries pe join (Dirent name sub # after) dir
     = (ChmodCall (join dir name) (ModeNum 438) # fst (forEntries pe join after dir), None)"
  using assms forEntries_returns [of pe join after dir]
  by (cases sub) (simp_all add: chmodSyncP_def prod_eq_iff)

text \<open>
  Claim C7. \<open>isWindows()\<close> is true exactly when the platform is \<open>win32\<close>; and
  \<open>removeReadOnly\<close> and \<open>makeFileExecutable\<close> throw nothing, on every platform, for every
  path, whatever \<open>execSync\<close>, \<open>readdirSync\<close> and \<open>chmodSync\<close> throw and whatever the
  directory holds.
\<close>

theorem platform_never_raises:
  "isWindows platform = (platform = ''win32'')
   \<and> snd (removeReadOnly platform join pe tree dirPath) = None
   \<and> snd (makeFileExecutable platform pe filePath) = None"
  by (simp add: isWindows_def removeReadOnly_def makeFileExecutable_def)

text \<open>The theorem where every call that can throw does.\<close>

theorem platform_never_raises_witness:
  "isWindows ''win32'' \<and> \<not> isWindows ''darwin''
   \<and> snd (removeReadOnly ''linux'' posixJoin everythingFails Absent ''/test/path'') = None
   \<and> snd (removeReadOnly ''win32'' win32Join everythingFails searchableTree searchableDir) = None
   \<and> snd (removeReadOnly ''win32'' win32Join everythingFails (Unreadable (JError ''ENOTDIR''))
        searchableDir) = None
   \<and> snd (makeFileExecutable ''darwin'' everythingFails ''/test/script.sh'') = None"
  using platform_never_raises [where platform = "''win32''"]
    platform_never_raises [where platform = "''darwin''"]
    platform_never_raises [where platform = "''linux''"]
  by simp

text \<open>
  Claim C10. On \<open>win32\<close>, let \<open>chmodSync\<close> throw for an entry that is a directory. Then the
  loop over the entries of its parent makes, for this entry, the call of \<open>chmodSync\<close>
  and no other: nothing is called on the subtree below the entry, since the recursive
  call stands in the same \<open>try\<close> block after the \<open>chmodSync\<close>. The entries before it and
  the entries after it are processed as they are without it. The second part states
  the same for \<open>removeReadOnly\<close> when the entry is in the directory it is called on.
\<close>

theorem removeReadOnly_skips_subtree:
  assumes "chmodFailure pe (join dir name) (ModeNum 438) = Some e"
  shows "forEntries pe join (before @ Dirent name (Some sub) # after) dir
     = (fst (forEntries pe join before dir)
        @ [ChmodCall (join dir name) (ModeNum 438)]
        @ fst (forEntries pe join after dir), None)
   \<and> removeReadOnly ''win32'' join pe (Listing (before @ Dirent name (Some sub) # after)) dir
     = ([ExistsSync dir, ReaddirSync dir]
        @ fst (forEntries pe join before dir)
        @ [ChmodCall (join dir name) (ModeNum 438)]
        @ fst (forEntries pe join after dir), None)"
proof -
  have one: "forEntries pe join (Dirent name (Some sub) # after) dir
      = (ChmodCall (join dir name) (ModeNum 438) # fst (forEntries pe join after dir), None)"
    by (rule forEntries_chmod_fails [where join = join and dir = dir and name = name, OF assms])
  have loop: "forEntries pe join (before @ Dirent name (Some sub) # after) dir
     = (fst (forEntries pe join before dir)
        @ [ChmodCall (join dir name) (ModeNum 438)]
        @ fst (forEntries pe join after dir), None)"
    unfolding forEntries_append [of pe join before "Dirent name (Some sub) # after" dir] one
    by simp
  have top: "removeReadOnly ''win32'' join pe (Listing (before @ Dirent name (Some sub) # after)) dir
      = ([ExistsSync dir, ReaddirSync dir]
          @ fst (forEntries pe join (before @ Dirent name (Some sub) # after) dir), None)"
    by (simp add: removeReadOnly_def isWindows_def)
  show ?thesis
    unfolding top loop by simp
qed

text \<open>
  The theorem at a directory with the subdirectories \<open>alice\<close> and \<open>shared\<close>, where
  \<open>chmodSync\<close> throws for \<open>alice\<close>: \<open>alice\<close> is not read, \<open>shared\<close> is.
\<close>

theorem removeReadOnly_skips_subtree_witness:
  "chmodFailure (chmodDenied (win32Join searchableDir ''alice''))
       (win32Join searchableDir ''alice'') (ModeNum 438)
     = Some (JError ''EPERM: operation not permitted, chmod'')
   \<and> removeReadOnly ''win32'' win32Join (chmodDenied (win32Join searchableDir ''alice''))
       searchableTree searchableDir
     = ([ExistsSync searchableDir, ReaddirSync searchableDir,
         ChmodCall (win32Join searchableDir ''alice'') (ModeNum 438),
         ChmodCall (win32Join searchableDir ''shared'') (ModeNum 438),
         ExistsSync (win32Join searchableDir ''shared''),
         ReaddirSync (win32Join searchableDir ''shared''),
         ChmodCall (win32Join (win32Join searchableDir ''shared'') ''plan.md'') (ModeNum 438)],
        None)"
proof -
  have f: "chmodFailure (chmodDenied (win32Join searchableDir ''alice''))
       (win32Join searchableDir ''alice'') (ModeNum 438)
     = Some (JError ''EPERM: operation not permitted, chmod'')"
    by (simp add: chmodDenied_def)
  have n: "win32Join searchableDir ''shared'' \<noteq> win32Join searchableDir ''alice''"
    "win32Join (win32Join searchableDir ''shared'') ''plan.md'' \<noteq> win32Join searchableDir ''alice''"
    by (simp_all add: win32Join_def)
  note w = removeReadOnly_skips_subtree [where join = win32Join and dir = searchableDir
      and name = "''alice''" and before = "[]" and sub = "Listing [Dirent ''todo.md'' None]"
      and after = "[Dirent ''shared'' (Some (Listing [Dirent ''plan.md'' None]))]", OF f]
  show ?thesis
    using w f n by (simp add: searchableTree_def chmodSyncP_def chmodDenied_def)
qed

end
